theory Spec2Isabelle
  imports Main
begin

section \<open>Documents and the store\<close>

text \<open>
  A stored identifier is the string that \<open>toString\<close> prints for the ObjectId (lower-case
  hexadecimal). A request carries identifiers as raw strings (path parameters, query
  parameters, body fields, token claims, the bearer segment of one route); where the code
  hands such a string to a query or pushes it into an array of references, the driver
  casts it to an ObjectId first (\<open>castObjectId\<close> below) and throws a CastError when it
  cannot; where the code compares strings, the raw string is compared.

  Strings are the UTF-8 bytes of the JavaScript strings.
\<close>

type_synonym oid = string

text \<open>
  Modelled from the spec: the AdminUser model (models/adminUser is not among the sources).
  Fields as the spec's data model lists them and as the admin routes write them; the email
  is unique.
\<close>

record adminUser =
  a_id :: oid
  a_name :: string
  a_email :: string
  a_password :: string
  a_role :: string
  a_active :: bool

text \<open>
  Modelled from the spec: the User model (models/user is not among the sources). Fields as
  the spec's data model lists them and as the user routes write them; the email is unique,
  the parentEmail is optional.
\<close>

record user =
  u_id :: oid
  u_name :: string
  u_email :: string
  u_parentEmail :: "string option"
  u_password :: string
  u_role :: string

text \<open>Models/batch.js: the embedded announcement and the batch (timestamps: createdAt).\<close>

record announcement =
  an_title :: string
  an_content :: string
  an_teacher_id :: oid
  an_createdAt :: nat

record batch =
  b_id :: oid
  b_name :: string
  b_batch_code :: string
  b_class :: string
  b_teacher_id :: oid
  b_students :: "oid list"
  b_announcements :: "announcement list"
  b_createdAt :: nat

text \<open>The three collections, each in insertion order.\<close>

record db =
  admins :: "adminUser list"
  users :: "user list"
  batches :: "batch list"

definition empty_db :: db where
  "empty_db = \<lparr>admins = [], users = [], batches = []\<rparr>"

section \<open>Requests, responses, external collaborators\<close>

datatype json =
    JNull
  | JBool bool
  | JNum nat
  | JStr string
  | JArr "json list"
  | JObj "(string \<times> json) list"

record response =
  status :: nat
  payload :: json

text \<open>The payload of a signed token.\<close>

record claims =
  c_adminId :: "oid option"
  c_userId :: "oid option"
  c_email :: string
  c_role :: "string option"

text \<open>
  A request as a handler sees it. The body is a JSON object whose fields are strings when
  present (\<open>studentIds\<close>, the one array, is apart); \<open>req_user\<close> is \<open>req.user\<close>, which
  only an authentication middleware would assign.
\<close>

record request =
  headers_authorization :: "string option"
  params_batchId :: oid
  query :: "(string \<times> string) list"
  body :: "(string \<times> string) list"
  body_studentIds :: "string list option"
  req_user :: "claims option"

text \<open>What a handler can catch.\<close>

datatype exn =
    ZodError "(string \<times> string) list"
  | ValidationError "string list"
  | MongoServerError
  | CastError
  | TypeError
  | JsonWebTokenError
  | TokenExpiredError
  | NotBeforeError

text \<open>
  What lies outside the repository: bcrypt, jsonwebtoken (signing with the process secret,
  at the time of the request), zod's email pattern, the driver's ObjectId generator and
  its cast of a string to an ObjectId (\<open>None\<close> when it throws, otherwise the identifier in
  stored form), the runtime's \<open>String.prototype.toUpperCase\<close> (which is also what the schema
  option \<open>uppercase\<close> applies), the \<open>message\<close> the libraries give their errors, the clock
  and \<open>process.env.SALT_ROUNDS\<close>.
\<close>

record env =
  bcrypt_hash :: "string \<Rightarrow> nat \<Rightarrow> string"
  bcrypt_compare :: "string \<Rightarrow> string \<Rightarrow> bool"
  jwt_sign :: "claims \<Rightarrow> nat \<Rightarrow> string"
  jwt_verify :: "string option \<Rightarrow> exn + claims"
  zod_email :: "string \<Rightarrow> bool"
  new_ObjectId :: "nat \<Rightarrow> oid"
  castObjectId :: "string \<Rightarrow> oid option"
  js_toUpperCase :: "string \<Rightarrow> string"
  error_message :: "exn \<Rightarrow> string"
  now :: nat
  SALT_ROUNDS :: nat

definition send :: "nat \<Rightarrow> json \<Rightarrow> db \<Rightarrow> response \<times> db" where
  "send st j s = (\<lparr>status = st, payload = j\<rparr>, s)"

text \<open>A field of a JSON object, as a client reads the response.\<close>

definition field :: "json \<Rightarrow> string \<Rightarrow> json option" where
  "field j k = (case j of JObj kvs \<Rightarrow> map_of kvs k | _ \<Rightarrow> None)"

definition issues_json :: "(string \<times> string) list \<Rightarrow> json" where
  "issues_json is = JArr (map (\<lambda>(p, m). JObj [(''path'', JArr [JStr p]), (''message'', JStr m)]) is)"

text \<open>
  \<open>error.errors\<close> and \<open>error.name\<close> of a caught value (\<open>error.message\<close> is
  \<open>error_message\<close> of the environment).
\<close>

fun exn_errors :: "exn \<Rightarrow> json option" where
  "exn_errors (ZodError is) = Some (issues_json is)"
| "exn_errors (ValidationError ps) = Some (JObj (map (\<lambda>p. (p, JStr (''Path `'' @ p @ ''` is required.''))) ps))"
| "exn_errors _ = None"

fun exn_name :: "exn \<Rightarrow> string" where
  "exn_name (ZodError is) = ''ZodError''"
| "exn_name (ValidationError ps) = ''ValidationError''"
| "exn_name MongoServerError = ''MongoServerError''"
| "exn_name CastError = ''CastError''"
| "exn_name TypeError = ''TypeError''"
| "exn_name JsonWebTokenError = ''JsonWebTokenError''"
| "exn_name TokenExpiredError = ''TokenExpiredError''"
| "exn_name NotBeforeError = ''NotBeforeError''"

section \<open>Strings\<close>

text \<open>
  \<open>s.length\<close>: the number of UTF-16 code units. Every byte that starts a character counts
  once (the continuation bytes 80 to BF do not), and the lead byte of a four-byte
  character (F0 and above) once more, for the second half of the surrogate pair.
\<close>

definition js_length :: "string \<Rightarrow> nat" where
  "js_length s =
     length (filter (\<lambda>c. \<not> (128 \<le> (of_char c :: nat) \<and> (of_char c :: nat) < 192)) s)
     + length (filter (\<lambda>c. 240 \<le> (of_char c :: nat)) s)"

text \<open>\<open>s.split(' ')\<close>: at least one segment, empty segments kept.\<close>

fun split_on :: "char \<Rightarrow> string \<Rightarrow> string list" where
  "split_on c [] = [[]]"
| "split_on c (x # xs) =
     (if x = c then [] # split_on c xs
      else (case split_on c xs of
              [] \<Rightarrow> [[x]]
            | w # ws \<Rightarrow> (x # w) # ws))"

text \<open>\<open>xs[1]\<close>: undefined when there is no second element.\<close>

fun second :: "'a list \<Rightarrow> 'a option" where
  "second (x # y # _) = Some y"
| "second _ = None"

definition bearer_segment :: "string \<Rightarrow> string option" where
  "bearer_segment h = second (split_on CHR '' '' h)"

definition startsWith_Bearer :: "string \<Rightarrow> bool" where
  "startsWith_Bearer h = (take 7 h = ''Bearer '')"

text \<open>A string option as a JavaScript condition: undefined and the empty string are falsy.\<close>

fun truthy :: "string option \<Rightarrow> bool" where
  "truthy None = False"
| "truthy (Some s) = (s \<noteq> [])"

text \<open>The string of a condition that held (the empty string otherwise).\<close>

fun opt_str :: "string option \<Rightarrow> string" where
  "opt_str None = []"
| "opt_str (Some x) = x"

text \<open>
  The characters that \<open>\s\<close> matches, as UTF-8 bytes: tab, line feed, vertical tab, form
  feed, carriage return, space, U+00A0, U+1680, U+2000 to U+200A, U+2028, U+2029, U+202F,
  U+205F, U+3000 and U+FEFF.
\<close>

definition white_space :: "nat list list" where
  "white_space =
     [[9], [10], [11], [12], [13], [32], [194, 160], [225, 154, 128],
      [226, 128, 128], [226, 128, 129], [226, 128, 130], [226, 128, 131], [226, 128, 132],
      [226, 128, 133], [226, 128, 134], [226, 128, 135], [226, 128, 136], [226, 128, 137],
      [226, 128, 138], [226, 128, 168], [226, 128, 169], [226, 128, 175], [226, 129, 159],
      [227, 128, 128], [239, 187, 191]]"

definition starts_with_space :: "string \<Rightarrow> bool" where
  "starts_with_space s = list_ex (\<lambda>w. take (length w) (map of_char s) = w) white_space"

fun has_space :: "string \<Rightarrow> bool" where
  "has_space [] = False"
| "has_space (c # cs) = (starts_with_space (c # cs) \<or> has_space cs)"

text \<open>
  The pattern \<open>/^\S+@\S+\.\S+$/\<close> of the admin login: no white space anywhere, and an
  \<open>@\<close> after the first character that is followed, not at once, by a dot that is not
  the last character.
\<close>

definition dot_inside :: "string \<Rightarrow> bool" where
  "dot_inside t = (CHR ''.'' \<in> set (butlast (tl t)))"

fun at_then_dot :: "string \<Rightarrow> bool" where
  "at_then_dot [] = False"
| "at_then_dot (c # cs) = ((c = CHR ''@'' \<and> dot_inside cs) \<or> at_then_dot cs)"

definition login_email_pattern :: "string \<Rightarrow> bool" where
  "login_email_pattern s = (s \<noteq> [] \<and> \<not> has_space s \<and> at_then_dot (tl s))"

section \<open>Queries\<close>

text \<open>A document by its stored identifier.\<close>

definition AdminUser_byId :: "db \<Rightarrow> oid \<Rightarrow> adminUser option" where
  "AdminUser_byId s k = find (\<lambda>a. a_id a = k) (admins s)"

definition User_byId :: "db \<Rightarrow> oid \<Rightarrow> user option" where
  "User_byId s k = find (\<lambda>u. u_id u = k) (users s)"

definition Batch_byId :: "db \<Rightarrow> oid \<Rightarrow> batch option" where
  "Batch_byId s k = find (\<lambda>b. b_id b = k) (batches s)"

text \<open>
  \<open>Model.findById(x)\<close> for a raw value of the request: \<open>undefined\<close> finds nothing, a
  string is cast first, and a string that cannot be cast makes the query throw.
\<close>

definition AdminUser_findById :: "env \<Rightarrow> db \<Rightarrow> string option \<Rightarrow> exn + adminUser option" where
  "AdminUser_findById env s x =
     (case x of
        None \<Rightarrow> Inr None
      | Some raw \<Rightarrow>
          (case castObjectId env raw of
             None \<Rightarrow> Inl CastError
           | Some k \<Rightarrow> Inr (AdminUser_byId s k)))"

definition User_findById :: "env \<Rightarrow> db \<Rightarrow> string option \<Rightarrow> exn + user option" where
  "User_findById env s x =
     (case x of
        None \<Rightarrow> Inr None
      | Some raw \<Rightarrow>
          (case castObjectId env raw of
             None \<Rightarrow> Inl CastError
           | Some k \<Rightarrow> Inr (User_byId s k)))"

definition Batch_findById :: "env \<Rightarrow> db \<Rightarrow> string \<Rightarrow> exn + batch option" where
  "Batch_findById env s raw =
     (case castObjectId env raw of
        None \<Rightarrow> Inl CastError
      | Some k \<Rightarrow> Inr (Batch_byId s k))"

text \<open>
  A list of raw identifiers cast one by one (the \<open>$in\<close> of a query, the arguments of
  \<open>push\<close>): \<open>None\<close> when one of them cannot be cast.
\<close>

definition cast_all :: "env \<Rightarrow> string list \<Rightarrow> oid list option" where
  "cast_all env raws = those (map (castObjectId env) raws)"

definition Batch_findByCode :: "db \<Rightarrow> string \<Rightarrow> batch option" where
  "Batch_findByCode s c = find (\<lambda>b. b_batch_code b = c) (batches s)"

text \<open>\<open>batch.save()\<close>: the stored document with the same identifier is replaced.\<close>

definition Batch_save :: "batch \<Rightarrow> db \<Rightarrow> db" where
  "Batch_save b s = s\<lparr>batches := map (\<lambda>x. if b_id x = b_id b then b else x) (batches s)\<rparr>"

text \<open>\<open>.sort({ createdAt: -1 })\<close>.\<close>

definition sort_newest :: "batch list \<Rightarrow> batch list" where
  "sort_newest bs = rev (sort_key b_createdAt bs)"

subsection \<open>Populated views\<close>

definition teacher_view :: "db \<Rightarrow> oid \<Rightarrow> json" where
  "teacher_view s i =
     (case AdminUser_byId s i of
        None \<Rightarrow> JNull
      | Some a \<Rightarrow> JObj [(''_id'', JStr (a_id a)), (''name'', JStr (a_name a)), (''email'', JStr (a_email a))])"

text \<open>A whole User document as JSON, the password hash included.\<close>

definition user_document :: "user \<Rightarrow> json" where
  "user_document u =
     JObj ([(''_id'', JStr (u_id u)), (''name'', JStr (u_name u)), (''email'', JStr (u_email u))]
           @ (case u_parentEmail u of None \<Rightarrow> [] | Some pe \<Rightarrow> [(''parentEmail'', JStr pe)])
           @ [(''password'', JStr (u_password u)), (''role'', JStr (u_role u))])"

definition student_view :: "user \<Rightarrow> json" where
  "student_view u = JObj [(''_id'', JStr (u_id u)), (''name'', JStr (u_name u)), (''email'', JStr (u_email u))]"

text \<open>Populating an array of references drops the references that resolve to nothing.\<close>

definition populate_students :: "db \<Rightarrow> oid list \<Rightarrow> user list" where
  "populate_students s ids = List.map_filter (User_byId s) ids"

definition announcement_json :: "(oid \<Rightarrow> json) \<Rightarrow> announcement \<Rightarrow> json" where
  "announcement_json teacher a =
     JObj [(''title'', JStr (an_title a)), (''content'', JStr (an_content a)),
           (''teacher_id'', teacher (an_teacher_id a)), (''createdAt'', JNum (an_createdAt a))]"

text \<open>A batch document as JSON; the two arguments say how references are rendered.\<close>

definition batch_json :: "(oid \<Rightarrow> json) \<Rightarrow> (oid list \<Rightarrow> json list) \<Rightarrow> batch \<Rightarrow> json" where
  "batch_json teacher studs b =
     JObj [(''_id'', JStr (b_id b)), (''name'', JStr (b_name b)),
           (''batch_code'', JStr (b_batch_code b)), (''class'', JStr (b_class b)),
           (''teacher_id'', teacher (b_teacher_id b)),
           (''students'', JArr (studs (b_students b))),
           (''announcements'', JArr (map (announcement_json JStr) (b_announcements b))),
           (''createdAt'', JNum (b_createdAt b))]"

definition populated_batch :: "db \<Rightarrow> batch \<Rightarrow> json" where
  "populated_batch s b = batch_json (teacher_view s) (\<lambda>ids. map student_view (populate_students s ids)) b"

section \<open>Schemas\<close>

text \<open>
  A zod string field: an absent field gives the issue \<open>Required\<close>, a present one is checked
  (\<open>min\<close> on \<open>length\<close>, \<open>email\<close>). An optional field is checked only when present.
\<close>

definition z_min :: "string \<Rightarrow> nat \<Rightarrow> string \<Rightarrow> string option \<Rightarrow> (string \<times> string) list" where
  "z_min k n msg v =
     (case v of
        None \<Rightarrow> [(k, ''Required'')]
      | Some x \<Rightarrow> if js_length x < n then [(k, msg)] else [])"

definition z_email :: "env \<Rightarrow> string \<Rightarrow> string \<Rightarrow> string option \<Rightarrow> (string \<times> string) list" where
  "z_email env k msg v =
     (case v of
        None \<Rightarrow> [(k, ''Required'')]
      | Some x \<Rightarrow> if zod_email env x then [] else [(k, msg)])"

definition z_optional :: "(string option \<Rightarrow> (string \<times> string) list) \<Rightarrow> string option \<Rightarrow> (string \<times> string) list" where
  "z_optional chk v = (case v of None \<Rightarrow> [] | Some x \<Rightarrow> chk v)"

definition body_json :: "(string \<times> string) list \<Rightarrow> json" where
  "body_json b = JObj (map (\<lambda>(k, v). (k, JStr v)) b)"

text \<open>routes/admin: \<open>registerSchema\<close> and \<open>batchSchema\<close>.\<close>

definition admin_registerSchema :: "env \<Rightarrow> (string \<times> string) list \<Rightarrow> exn + (string \<times> string \<times> string)" where
  "admin_registerSchema env b =
     (let issues = z_min ''name'' 1 ''Name is required'' (map_of b ''name'')
                 @ z_email env ''email'' ''Invalid email format'' (map_of b ''email'')
                 @ z_min ''password'' 6 ''Password must be at least 6 characters long'' (map_of b ''password'')
      in case (map_of b ''name'', map_of b ''email'', map_of b ''password'') of
           (Some n, Some e, Some p) \<Rightarrow> if issues = [] then Inr (n, e, p) else Inl (ZodError issues)
         | _ \<Rightarrow> Inl (ZodError issues))"

definition batchSchema :: "(string \<times> string) list \<Rightarrow> exn + (string \<times> string \<times> string \<times> string)" where
  "batchSchema b =
     (let issues = z_min ''batch_code'' 1 ''Batch code is required'' (map_of b ''batch_code'')
                 @ z_min ''name'' 1 ''Batch name is required'' (map_of b ''name'')
                 @ z_min ''class'' 1 ''Class is required'' (map_of b ''class'')
                 @ z_min ''teacher_id'' 1 ''Teacher ID is required'' (map_of b ''teacher_id'')
      in case (map_of b ''batch_code'', map_of b ''name'', map_of b ''class'', map_of b ''teacher_id'') of
           (Some c, Some n, Some k, Some t) \<Rightarrow> if issues = [] then Inr (c, n, k, t) else Inl (ZodError issues)
         | _ \<Rightarrow> Inl (ZodError issues))"

text \<open>routes/admin: \<open>validateLogin\<close>; the errors, or the two fields when there is none.\<close>

definition validateLogin :: "(string \<times> string) list \<Rightarrow> (string \<times> string) list + (string \<times> string)" where
  "validateLogin data =
     (let errors =
            (if \<not> truthy (map_of data ''email'')
                \<or> \<not> (case map_of data ''email'' of None \<Rightarrow> False | Some e \<Rightarrow> login_email_pattern e)
             then [(''email'', ''Invalid email format'')] else [])
          @ (if \<not> truthy (map_of data ''password'')
             then [(''password'', ''Password is required'')] else [])
      in case (map_of data ''email'', map_of data ''password'') of
           (Some e, Some p) \<Rightarrow> if errors = [] then Inr (e, p) else Inl errors
         | _ \<Rightarrow> Inl errors)"

section \<open>Writes\<close>

text \<open>
  Modelled from the spec: the unique index on the email of AdminUser and of User (the two
  model files are not among the sources). \<open>Model.create\<close> answers a duplicate email with
  the driver's duplicate-key error.
\<close>

definition AdminUser_create :: "adminUser \<Rightarrow> db \<Rightarrow> exn + db" where
  "AdminUser_create a s =
     (if find (\<lambda>x. a_email x = a_email a) (admins s) \<noteq> None then Inl MongoServerError
      else Inr (s\<lparr>admins := admins s @ [a]\<rparr>))"

definition User_create :: "user \<Rightarrow> db \<Rightarrow> exn + db" where
  "User_create u s =
     (if find (\<lambda>x. u_email x = u_email u) (users s) \<noteq> None then Inl MongoServerError
      else Inr (s\<lparr>users := users s @ [u]\<rparr>))"

text \<open>
  \<open>Batch.create\<close> under Models/batch.js: the setter \<open>uppercase\<close> on the code, the required
  string paths (an empty string does not satisfy \<open>required\<close>), the unique index on the code.
\<close>

definition Batch_required :: "batch \<Rightarrow> string list" where
  "Batch_required b =
     (if b_name b = [] then [''name''] else [])
   @ (if b_batch_code b = [] then [''batch_code''] else [])
   @ (if b_class b = [] then [''class''] else [])"

definition Batch_create :: "env \<Rightarrow> batch \<Rightarrow> db \<Rightarrow> exn + db" where
  "Batch_create env b0 s =
     (let b = b0\<lparr>b_batch_code := js_toUpperCase env (b_batch_code b0)\<rparr>
      in if Batch_required b \<noteq> [] then Inl (ValidationError (Batch_required b))
         else if Batch_findByCode s (b_batch_code b) \<noteq> None then Inl MongoServerError
         else Inr (s\<lparr>batches := batches s @ [b]\<rparr>))"

text \<open>
  An announcement pushed into a batch is validated when the batch is saved: title and
  content are required strings.
\<close>

definition new_announcement :: "string option \<Rightarrow> string option \<Rightarrow> oid \<Rightarrow> nat \<Rightarrow> exn + announcement" where
  "new_announcement title content teacher t =
     (let missing = (if truthy title then [] else [''announcements.0.title''])
                  @ (if truthy content then [] else [''announcements.0.content''])
      in case (title, content) of
           (Some ti, Some co) \<Rightarrow>
             if missing = [] then Inr \<lparr>an_title = ti, an_content = co, an_teacher_id = teacher, an_createdAt = t\<rparr>
             else Inl (ValidationError missing)
         | _ \<Rightarrow> Inl (ValidationError missing))"

section \<open>routes/admin\<close>

subsection \<open>POST /admin/register\<close>

definition admin_register_catch :: "env \<Rightarrow> request \<Rightarrow> exn \<Rightarrow> db \<Rightarrow> response \<times> db" where
  "admin_register_catch env req error s =
     (case exn_errors error of
        Some errs \<Rightarrow>
          send 400 (JObj [(''success'', JBool False), (''message'', JStr ''Validation error''),
                          (''errors'', errs), (''receivedData'', body_json (body req))]) s
      | None \<Rightarrow>
          send 500 (JObj [(''success'', JBool False), (''message'', JStr ''Server error during registration''),
                          (''error'', JStr (error_message env error))]) s)"

definition admin_register :: "env \<Rightarrow> request \<Rightarrow> db \<Rightarrow> response \<times> db" where
  "admin_register env req s =
     (case admin_registerSchema env (body req) of
        Inl error \<Rightarrow> admin_register_catch env req error s
      | Inr (name, email, password) \<Rightarrow>
          (case find (\<lambda>a. a_email a = email) (admins s) of
             Some existingAdmin \<Rightarrow>
               send 409 (JObj [(''success'', JBool False), (''message'', JStr ''Admin email already exists'')]) s
           | None \<Rightarrow>
               (let hashedPassword = bcrypt_hash env password 10;
                    admin = \<lparr>a_id = new_ObjectId env 0, a_name = name, a_email = email,
                             a_password = hashedPassword, a_role = ''admin'', a_active = True\<rparr>
                in case AdminUser_create admin s of
                     Inl error \<Rightarrow> admin_register_catch env req error s
                   | Inr s' \<Rightarrow>
                       (let token = jwt_sign env \<lparr>c_adminId = Some (a_id admin), c_userId = None,
                                                  c_email = a_email admin, c_role = Some ''admin''\<rparr> 3600
                        in send 201 (JObj [(''success'', JBool True),
                                           (''message'', JStr ''Admin registration successful''),
                                           (''token'', JStr token),
                                           (''admin'', JObj [(''id'', JStr (a_id admin)), (''name'', JStr (a_name admin)),
                                                             (''email'', JStr (a_email admin)), (''role'', JStr ''admin'')])]) s'))))"

subsection \<open>POST /admin/login\<close>

definition admin_login :: "env \<Rightarrow> request \<Rightarrow> db \<Rightarrow> response \<times> db" where
  "admin_login env req s =
     (case validateLogin (body req) of
        Inl errors \<Rightarrow>
          send 400 (JObj [(''message'', JStr ''Invalid input''),
                          (''details'', JObj (map (\<lambda>(k, m). (k, JStr m)) errors))]) s
      | Inr (email, password) \<Rightarrow>
          (case find (\<lambda>a. a_email a = email) (admins s) of
             None \<Rightarrow> send 404 (JObj [(''message'', JStr ''Admin not found'')]) s
           | Some admin \<Rightarrow>
               if \<not> bcrypt_compare env password (a_password admin)
               then send 401 (JObj [(''message'', JStr ''Invalid password'')]) s
               else (let token = jwt_sign env \<lparr>c_adminId = Some (a_id admin), c_userId = None,
                                                c_email = a_email admin, c_role = None\<rparr> 3600
                     in send 200 (JObj [(''message'', JStr ''Admin login successful''),
                                        (''token'', JStr token),
                                        (''admin'', JObj [(''name'', JStr (a_name admin)),
                                                          (''email'', JStr (a_email admin))])]) s)))"

subsection \<open>POST /admin/batches\<close>

definition create_batch_catch :: "env \<Rightarrow> exn \<Rightarrow> db \<Rightarrow> response \<times> db" where
  "create_batch_catch env error s =
     send 500 (JObj [(''success'', JBool False), (''message'', JStr ''Error creating batch''),
                     (''error'', JStr (error_message env error))]) s"

definition create_batch :: "env \<Rightarrow> request \<Rightarrow> db \<Rightarrow> response \<times> db" where
  "create_batch env req s =
     (case batchSchema (body req) of
        Inl error \<Rightarrow> create_batch_catch env error s
      | Inr (batch_code, name, class, teacher_id) \<Rightarrow>
          (case AdminUser_findById env s (Some teacher_id) of
             Inl error \<Rightarrow> create_batch_catch env error s
           | Inr None \<Rightarrow>
               send 404 (JObj [(''success'', JBool False), (''message'', JStr ''Teacher not found'')]) s
           | Inr (Some admin) \<Rightarrow>
               (case Batch_findByCode s (js_toUpperCase env batch_code) of
                  Some existingBatch \<Rightarrow>
                    send 409 (JObj [(''success'', JBool False), (''message'', JStr ''Batch code already exists'')]) s
                | None \<Rightarrow>
                    (let batch = \<lparr>b_id = new_ObjectId env 0, b_name = name,
                                  b_batch_code = js_toUpperCase env batch_code, b_class = class,
                                  b_teacher_id = a_id admin, b_students = [],
                                  b_announcements = [], b_createdAt = now env\<rparr>
                     in case Batch_create env batch s of
                          Inl error \<Rightarrow> create_batch_catch env error s
                        | Inr s' \<Rightarrow>
                            send 201 (JObj [(''success'', JBool True),
                                            (''message'', JStr ''Batch created successfully''),
                                            (''batch'', (case Batch_byId s' (b_id batch) of
                                                          None \<Rightarrow> JNull
                                                        | Some populatedBatch \<Rightarrow> populated_batch s' populatedBatch))]) s'))))"

subsection \<open>POST /admin/batches/:batchId/students\<close>

definition add_students_catch :: "env \<Rightarrow> exn \<Rightarrow> db \<Rightarrow> response \<times> db" where
  "add_students_catch env error s =
     send 500 (JObj [(''success'', JBool False), (''message'', JStr ''Error adding students''),
                     (''error'', JStr (error_message env error))]) s"

text \<open>
  The query casts the submitted identifiers (\<open>$in\<close>); \<open>includes\<close> compares the submitted
  string itself with the printed form of each reference; \<open>push\<close> casts what it appends.
\<close>

definition add_students :: "env \<Rightarrow> request \<Rightarrow> db \<Rightarrow> response \<times> db" where
  "add_students env req s =
     (case body_studentIds req of
        None \<Rightarrow> send 400 (JObj [(''success'', JBool False), (''message'', JStr ''Invalid student IDs'')]) s
      | Some studentIds \<Rightarrow>
          if length studentIds = 0
          then send 400 (JObj [(''success'', JBool False), (''message'', JStr ''Invalid student IDs'')]) s
          else (case Batch_findById env s (params_batchId req) of
                  Inl error \<Rightarrow> add_students_catch env error s
                | Inr None \<Rightarrow>
                    send 404 (JObj [(''success'', JBool False), (''message'', JStr ''Batch not found'')]) s
                | Inr (Some batch) \<Rightarrow>
                    (case cast_all env studentIds of
                       None \<Rightarrow> add_students_catch env CastError s
                     | Some ids \<Rightarrow>
                         (let students = filter (\<lambda>u. u_id u \<in> set ids \<and> u_role u = ''student'') (users s)
                          in if length students \<noteq> length studentIds
                             then send 400 (JObj [(''success'', JBool False),
                                                  (''message'', JStr ''One or more invalid student IDs'')]) s
                             else (let newStudentIds = filter (\<lambda>i. i \<notin> set (b_students batch)) studentIds;
                                       batch' = batch\<lparr>b_students := b_students batch
                                                  @ List.map_filter (castObjectId env) newStudentIds\<rparr>;
                                       s' = Batch_save batch' s
                                   in send 200 (JObj [(''success'', JBool True),
                                                      (''message'', JStr ''Students added successfully''),
                                                      (''batch'', (case Batch_byId s' (b_id batch') of
                                                                    None \<Rightarrow> JNull
                                                                  | Some updatedBatch \<Rightarrow> populated_batch s' updatedBatch))]) s')))))"

subsection \<open>GET /admin/batches, GET /admin/batches/:batchId, GET /admin/teachers\<close>

definition get_batches :: "env \<Rightarrow> request \<Rightarrow> db \<Rightarrow> response \<times> db" where
  "get_batches env req s =
     send 200 (JObj [(''success'', JBool True),
                     (''batches'', JArr (map (populated_batch s) (sort_newest (batches s))))]) s"

definition get_batch :: "env \<Rightarrow> request \<Rightarrow> db \<Rightarrow> response \<times> db" where
  "get_batch env req s =
     (case Batch_findById env s (params_batchId req) of
        Inl error \<Rightarrow>
          send 500 (JObj [(''success'', JBool False), (''message'', JStr ''Error fetching batch details''),
                          (''error'', JStr (error_message env error))]) s
      | Inr None \<Rightarrow> send 404 (JObj [(''success'', JBool False), (''message'', JStr ''Batch not found'')]) s
      | Inr (Some batch) \<Rightarrow>
          send 200 (JObj [(''success'', JBool True),
                          (''batch'', JObj [(''_id'', JStr (b_id batch)), (''name'', JStr (b_name batch)),
                                            (''batch_code'', JStr (b_batch_code batch)),
                                            (''class'', JStr (b_class batch)),
                                            (''teacher_id'', teacher_view s (b_teacher_id batch)),
                                            (''students'', JArr (map student_view (populate_students s (b_students batch)))),
                                            (''createdAt'', JNum (b_createdAt batch)),
                                            (''status'', JStr ''active'')])]) s)"

definition get_teachers :: "env \<Rightarrow> request \<Rightarrow> db \<Rightarrow> response \<times> db" where
  "get_teachers env req s =
     (let teachers = filter (\<lambda>u. u_role u = ''teacher'') (users s)
      in send 200 (JObj [(''success'', JBool True),
                         (''teachers'', JArr (map student_view teachers)),
                         (''count'', JNum (length teachers))]) s)"

subsection \<open>POST and GET /admin/batches/:batchId/announcements\<close>

definition create_announcement_catch :: "env \<Rightarrow> exn \<Rightarrow> db \<Rightarrow> response \<times> db" where
  "create_announcement_catch env error s =
     send 500 (JObj [(''success'', JBool False), (''message'', JStr ''Error creating announcement''),
                     (''error'', JStr (error_message env error))]) s"

text \<open>
  The segment after \<open>Bearer\<close> is looked up as an administrator's identifier (cast by the
  query), compared as a string with the printed teacher_id of the batch, and stored (cast
  by the schema) as the announcement's teacher_id.
\<close>

definition create_announcement :: "env \<Rightarrow> request \<Rightarrow> db \<Rightarrow> response \<times> db" where
  "create_announcement env req s =
     (let title = map_of (body req) ''title'';
          content = map_of (body req) ''content'';
          batchId = params_batchId req;
          authHeader = headers_authorization req
      in if \<not> truthy authHeader \<or> \<not> (case authHeader of None \<Rightarrow> False | Some h \<Rightarrow> startsWith_Bearer h)
         then send 401 (JObj [(''success'', JBool False), (''message'', JStr ''Invalid authorization header'')]) s
         else (let tokenTeacherId = (case authHeader of None \<Rightarrow> None | Some h \<Rightarrow> bearer_segment h)
               in case AdminUser_findById env s tokenTeacherId of
                    Inl error \<Rightarrow> create_announcement_catch env error s
                  | Inr None \<Rightarrow>
                      send 401 (JObj [(''success'', JBool False),
                                      (''message'', JStr ''Invalid teacher credentials'')]) s
                  | Inr (Some teacher) \<Rightarrow>
                      (case Batch_findById env s batchId of
                         Inl error \<Rightarrow> create_announcement_catch env error s
                       | Inr None \<Rightarrow>
                           send 404 (JObj [(''success'', JBool False), (''message'', JStr ''Batch not found'')]) s
                       | Inr (Some batch) \<Rightarrow>
                           if Some (b_teacher_id batch) \<noteq> tokenTeacherId
                           then send 403 (JObj [(''success'', JBool False),
                                                (''message'', JStr ''Unauthorized to create announcement for this batch'')]) s
                           else (case castObjectId env (opt_str tokenTeacherId) of
                                   None \<Rightarrow> create_announcement_catch env CastError s
                                 | Some teacher_id \<Rightarrow>
                                     (case new_announcement title content teacher_id (now env) of
                                        Inl error \<Rightarrow> create_announcement_catch env error s
                                      | Inr a \<Rightarrow>
                                          (let batch' = batch\<lparr>b_announcements := a # b_announcements batch\<rparr>;
                                               s' = Batch_save batch' s
                                           in case Batch_findById env s' batchId of
                                                Inl error \<Rightarrow> create_announcement_catch env error s'
                                              | Inr None \<Rightarrow> create_announcement_catch env TypeError s'
                                              | Inr (Some populatedBatch) \<Rightarrow>
                                                  send 201 (JObj [(''success'', JBool True),
                                                                  (''message'', JStr ''Announcement created successfully''),
                                                                  (''announcement'',
                                                                     (case b_announcements populatedBatch of
                                                                        [] \<Rightarrow> JNull
                                                                      | x # xs \<Rightarrow> announcement_json (teacher_view s') x))]) s'))))))"

definition get_announcements :: "env \<Rightarrow> request \<Rightarrow> db \<Rightarrow> response \<times> db" where
  "get_announcements env req s =
     (case Batch_findById env s (params_batchId req) of
        Inl error \<Rightarrow>
          send 500 (JObj [(''success'', JBool False), (''message'', JStr ''Error fetching announcements''),
                          (''error'', JStr (error_message env error))]) s
      | Inr None \<Rightarrow> send 404 (JObj [(''success'', JBool False), (''message'', JStr ''Batch not found'')]) s
      | Inr (Some batch) \<Rightarrow>
          send 200 (JObj [(''success'', JBool True),
                          (''announcements'', JArr (map (announcement_json (teacher_view s)) (b_announcements batch)))]) s)"

section \<open>routes/user\<close>

text \<open>\<open>registerSchema\<close>, \<open>loginSchema\<close> and \<open>profileSchema\<close> of routes/user.\<close>

definition user_registerSchema :: "env \<Rightarrow> (string \<times> string) list \<Rightarrow> exn + (string \<times> string \<times> string \<times> string)" where
  "user_registerSchema env b =
     (let issues = z_min ''name'' 1 ''Name is required'' (map_of b ''name'')
                 @ z_email env ''email'' ''Invalid email format'' (map_of b ''email'')
                 @ z_email env ''parentEmail'' ''Invalid parent email format'' (map_of b ''parentEmail'')
                 @ z_min ''password'' 6 ''Password must be at least 6 characters long'' (map_of b ''password'')
      in case (map_of b ''name'', map_of b ''email'', map_of b ''parentEmail'', map_of b ''password'') of
           (Some n, Some e, Some pe, Some p) \<Rightarrow> if issues = [] then Inr (n, e, pe, p) else Inl (ZodError issues)
         | _ \<Rightarrow> Inl (ZodError issues))"

definition loginSchema :: "env \<Rightarrow> (string \<times> string) list \<Rightarrow> exn + (string \<times> string)" where
  "loginSchema env b =
     (let issues = z_email env ''email'' ''Invalid email format'' (map_of b ''email'')
                 @ z_min ''password'' 1 ''Password is required'' (map_of b ''password'')
      in case (map_of b ''email'', map_of b ''password'') of
           (Some e, Some p) \<Rightarrow> if issues = [] then Inr (e, p) else Inl (ZodError issues)
         | _ \<Rightarrow> Inl (ZodError issues))"

definition profileSchema ::
  "env \<Rightarrow> (string \<times> string) list \<Rightarrow> exn + (string option \<times> string option \<times> string option \<times> string option)" where
  "profileSchema env b =
     (let issues = z_optional (z_email env ''email'' ''Invalid email format'') (map_of b ''email'')
                 @ z_optional (z_min ''newPassword'' 6 ''New password must be at least 6 characters long'')
                     (map_of b ''newPassword'')
      in if issues = []
         then Inr (map_of b ''name'', map_of b ''email'', map_of b ''currentPassword'', map_of b ''newPassword'')
         else Inl (ZodError issues))"

text \<open>The catch branch shared by register, the legacy login and the profile update.\<close>

definition invalid_input_catch :: "exn \<Rightarrow> db \<Rightarrow> response \<times> db" where
  "invalid_input_catch error s =
     send 400 (JObj [(''message'', (case exn_errors error of
                                     Some errs \<Rightarrow> errs
                                   | None \<Rightarrow> JStr ''Invalid input''))]) s"

definition user_public :: "user \<Rightarrow> json" where
  "user_public u =
     JObj [(''name'', JStr (u_name u)), (''email'', JStr (u_email u)),
           (''parentEmail'', (case u_parentEmail u of None \<Rightarrow> JNull | Some pe \<Rightarrow> JStr pe)),
           (''role'', JStr (u_role u))]"

subsection \<open>POST /user/register\<close>

definition user_register :: "env \<Rightarrow> request \<Rightarrow> db \<Rightarrow> response \<times> db" where
  "user_register env req s =
     (case user_registerSchema env (body req) of
        Inl error \<Rightarrow> invalid_input_catch error s
      | Inr (name, email, parentEmail, password) \<Rightarrow>
          (case find (\<lambda>u. u_email u = email \<or> u_email u = parentEmail) (users s) of
             Some existingUser \<Rightarrow> send 409 (JObj [(''message'', JStr ''Email already exists'')]) s
           | None \<Rightarrow>
               (let hashedPassword = bcrypt_hash env password (SALT_ROUNDS env);
                    student = \<lparr>u_id = new_ObjectId env 0, u_name = name, u_email = email,
                               u_parentEmail = Some parentEmail, u_password = hashedPassword,
                               u_role = ''student''\<rparr>
                in case User_create student s of
                     Inl error \<Rightarrow> invalid_input_catch error s
                   | Inr s1 \<Rightarrow>
                       (case User_create \<lparr>u_id = new_ObjectId env 1, u_name = ''Parent of '' @ name,
                                          u_email = parentEmail, u_parentEmail = None,
                                          u_password = hashedPassword, u_role = ''parent''\<rparr> s1 of
                          Inl error \<Rightarrow> invalid_input_catch error s1
                        | Inr s2 \<Rightarrow>
                            (let token = jwt_sign env \<lparr>c_adminId = None, c_userId = Some (u_id student),
                                                       c_email = u_email student,
                                                       c_role = Some (u_role student)\<rparr> 3600
                             in send 201 (JObj [(''message'', JStr ''Registration successful''),
                                                (''token'', JStr token),
                                                (''user'', user_public student)]) s2)))))"

subsection \<open>POST /user/login, /user/login/student, /user/login/parent\<close>

definition user_login :: "env \<Rightarrow> request \<Rightarrow> db \<Rightarrow> response \<times> db" where
  "user_login env req s =
     (case loginSchema env (body req) of
        Inl error \<Rightarrow> invalid_input_catch error s
      | Inr (email, password) \<Rightarrow>
          (case find (\<lambda>u. u_email u = email \<or> u_parentEmail u = Some email) (users s) of
             None \<Rightarrow> send 404 (JObj [(''message'', JStr ''User not found'')]) s
           | Some user \<Rightarrow>
               if \<not> bcrypt_compare env password (u_password user)
               then send 401 (JObj [(''message'', JStr ''Invalid password'')]) s
               else (let token = jwt_sign env \<lparr>c_adminId = None, c_userId = Some (u_id user),
                                                c_email = u_email user, c_role = Some (u_role user)\<rparr> 3600
                     in send 200 (JObj [(''message'', JStr ''Login successful''),
                                        (''token'', JStr token),
                                        (''user'', user_public user)]) s)))"

definition login_student :: "env \<Rightarrow> request \<Rightarrow> db \<Rightarrow> response \<times> db" where
  "login_student env req s =
     (let email = map_of (body req) ''email''; password = map_of (body req) ''password''
      in if \<not> truthy email \<or> \<not> truthy password
         then send 400 (JObj [(''success'', JBool False), (''message'', JStr ''Email and password are required'')]) s
         else (case find (\<lambda>u. u_email u = opt_str email \<and> u_role u = ''student'') (users s) of
                 None \<Rightarrow> send 404 (JObj [(''success'', JBool False), (''message'', JStr ''Student not found'')]) s
               | Some student \<Rightarrow>
                   if \<not> bcrypt_compare env (opt_str password) (u_password student)
                   then send 401 (JObj [(''success'', JBool False), (''message'', JStr ''Invalid password'')]) s
                   else (let token = jwt_sign env \<lparr>c_adminId = None, c_userId = Some (u_id student),
                                                    c_email = u_email student, c_role = Some ''student''\<rparr> 86400
                         in send 200 (JObj [(''success'', JBool True), (''message'', JStr ''Login successful''),
                                            (''token'', JStr token),
                                            (''user'', JObj [(''id'', JStr (u_id student)),
                                                             (''name'', JStr (u_name student)),
                                                             (''email'', JStr (u_email student)),
                                                             (''role'', JStr ''student'')])]) s)))"

definition login_parent :: "env \<Rightarrow> request \<Rightarrow> db \<Rightarrow> response \<times> db" where
  "login_parent env req s =
     (let email = map_of (body req) ''email''; password = map_of (body req) ''password''
      in if \<not> truthy email \<or> \<not> truthy password
         then send 400 (JObj [(''success'', JBool False), (''message'', JStr ''Email and password are required'')]) s
         else (case find (\<lambda>u. u_email u = opt_str email \<and> u_role u = ''parent'') (users s) of
                 None \<Rightarrow> send 404 (JObj [(''success'', JBool False),
                                          (''message'', JStr ''Parent account not found with this email'')]) s
               | Some parent \<Rightarrow>
                   if \<not> bcrypt_compare env (opt_str password) (u_password parent)
                   then send 401 (JObj [(''success'', JBool False), (''message'', JStr ''Invalid password'')]) s
                   else (let linkedStudents = filter (\<lambda>u. u_parentEmail u = email \<and> u_role u = ''student'') (users s);
                             token = jwt_sign env \<lparr>c_adminId = None, c_userId = Some (u_id parent),
                                                    c_email = u_email parent, c_role = Some ''parent''\<rparr> 86400
                         in send 200 (JObj [(''success'', JBool True), (''message'', JStr ''Login successful''),
                                            (''token'', JStr token),
                                            (''user'', JObj [(''id'', JStr (u_id parent)),
                                                             (''name'', JStr (u_name parent)),
                                                             (''email'', JStr (u_email parent)),
                                                             (''role'', JStr ''parent'')]),
                                            (''linkedStudents'', JArr (map student_view linkedStudents))]) s)))"

subsection \<open>PUT /user/profile\<close>

definition User_save :: "user \<Rightarrow> db \<Rightarrow> db" where
  "User_save u s = s\<lparr>users := map (\<lambda>x. if u_id x = u_id u then u else x) (users s)\<rparr>"

text \<open>
  Reading \<open>req.user.userId\<close> when \<open>req.user\<close> is undefined throws a TypeError, which the
  handler's catch answers like a schema failure.
\<close>

definition put_profile :: "env \<Rightarrow> request \<Rightarrow> db \<Rightarrow> response \<times> db" where
  "put_profile env req s =
     (case profileSchema env (body req) of
        Inl error \<Rightarrow> invalid_input_catch error s
      | Inr (name, email, currentPassword, newPassword) \<Rightarrow>
          (case req_user req of
             None \<Rightarrow> invalid_input_catch TypeError s
           | Some req_user' \<Rightarrow>
               (case User_findById env s (c_userId req_user') of
                  Inl error \<Rightarrow> invalid_input_catch error s
                | Inr None \<Rightarrow> send 404 (JObj [(''message'', JStr ''User not found'')]) s
                | Inr (Some user) \<Rightarrow>
                    if truthy currentPassword \<and> truthy newPassword
                       \<and> \<not> bcrypt_compare env (opt_str currentPassword) (u_password user)
                    then send 401 (JObj [(''message'', JStr ''Current password is incorrect'')]) s
                    else (let user1 = (if truthy currentPassword \<and> truthy newPassword
                                       then user\<lparr>u_password := bcrypt_hash env (opt_str newPassword) (SALT_ROUNDS env)\<rparr>
                                       else user);
                              user2 = (if truthy name then user1\<lparr>u_name := opt_str name\<rparr> else user1)
                          in if truthy email
                             then (case find (\<lambda>x. u_email x = opt_str email \<and> u_id x \<noteq> u_id user) (users s) of
                                     Some existingUser \<Rightarrow> send 409 (JObj [(''message'', JStr ''Email already exists'')]) s
                                   | None \<Rightarrow>
                                       send 200 (JObj [(''message'', JStr ''Profile updated successfully'')])
                                         (User_save (user2\<lparr>u_email := opt_str email\<rparr>) s))
                             else send 200 (JObj [(''message'', JStr ''Profile updated successfully'')])
                                    (User_save user2 s)))))"

subsection \<open>POST /user/join-batch\<close>

definition join_batch_catch :: "env \<Rightarrow> exn \<Rightarrow> db \<Rightarrow> response \<times> db" where
  "join_batch_catch env error s =
     (if exn_name error = ''JsonWebTokenError'' \<or> exn_name error = ''TokenExpiredError''
      then send 401 (JObj [(''success'', JBool False), (''message'', JStr ''Invalid or expired token'')]) s
      else send 500 (JObj [(''success'', JBool False), (''message'', JStr ''Error joining batch''),
                           (''error'', JStr (error_message env error))]) s)"

definition join_batch :: "env \<Rightarrow> request \<Rightarrow> db \<Rightarrow> response \<times> db" where
  "join_batch env req s =
     (let batch_code = map_of (body req) ''batch_code'';
          authHeader = headers_authorization req
      in if \<not> truthy batch_code \<or> \<not> truthy authHeader
         then send 400 (JObj [(''success'', JBool False),
                              (''message'', JStr ''Batch code and authorization header are required'')]) s
         else (let token = bearer_segment (opt_str authHeader)
               in case jwt_verify env token of
                    Inl error \<Rightarrow> join_batch_catch env error s
                  | Inr decoded \<Rightarrow>
                      (case User_findById env s (c_userId decoded) of
                         Inl error \<Rightarrow> join_batch_catch env error s
                       | Inr None \<Rightarrow>
                           send 403 (JObj [(''success'', JBool False),
                                           (''message'', JStr ''Only students can join batches'')]) s
                       | Inr (Some student) \<Rightarrow>
                           if u_role student \<noteq> ''student''
                           then send 403 (JObj [(''success'', JBool False),
                                                (''message'', JStr ''Only students can join batches'')]) s
                           else (case Batch_findByCode s (js_toUpperCase env (opt_str batch_code)) of
                                   None \<Rightarrow> send 404 (JObj [(''success'', JBool False),
                                                            (''message'', JStr ''Batch not found. Please check the batch code'')]) s
                                 | Some batch \<Rightarrow>
                                     if u_id student \<in> set (b_students batch)
                                     then send 409 (JObj [(''success'', JBool False),
                                                          (''message'', JStr ''You are already enrolled in this batch'')]) s
                                     else (let batch' = batch\<lparr>b_students := b_students batch @ [u_id student]\<rparr>
                                           in send 200 (JObj [(''success'', JBool True),
                                                              (''message'', JStr ''Successfully joined batch''),
                                                              (''batch'', JObj [(''code'', JStr (b_batch_code batch')),
                                                                                (''name'', JStr (b_name batch')),
                                                                                (''class'', JStr (b_class batch'))])])
                                                (Batch_save batch' s))))))"

subsection \<open>GET /user/my-batches\<close>

definition my_batches :: "env \<Rightarrow> request \<Rightarrow> db \<Rightarrow> response \<times> db" where
  "my_batches env req s =
     (let student_id = map_of (query req) ''student_id''
      in if \<not> truthy student_id
         then send 400 (JObj [(''success'', JBool False), (''message'', JStr ''Student ID is required'')]) s
         else (case castObjectId env (opt_str student_id) of
                 None \<Rightarrow> send 500 (JObj [(''success'', JBool False), (''message'', JStr ''Error fetching batches'')]) s
               | Some sid \<Rightarrow>
                   (let found = sort_newest (filter (\<lambda>b. sid \<in> set (b_students b)) (batches s))
                    in send 200 (JObj [(''success'', JBool True),
                                       (''batches'', JArr (map (\<lambda>batch.
                                           JObj [(''_id'', JStr (b_id batch)), (''name'', JStr (b_name batch)),
                                                 (''batch_code'', JStr (b_batch_code batch)),
                                                 (''class'', JStr (b_class batch)),
                                                 (''teacher'',
                                                    (case AdminUser_byId s (b_teacher_id batch) of
                                                       None \<Rightarrow> JObj [(''name'', JStr ''Not Assigned'')]
                                                     | Some t \<Rightarrow> JObj [(''name'', JStr (if a_name t = [] then ''Not Assigned'' else a_name t)),
                                                                        (''email'', JStr (a_email t))])),
                                                 (''studentsCount'', JNum (length (b_students batch))),
                                                 (''createdAt'', JNum (b_createdAt batch))]) found))]) s)))"

subsection \<open>GET /user/parent/student-batches\<close>

definition parent_student_batches_catch :: "env \<Rightarrow> exn \<Rightarrow> db \<Rightarrow> response \<times> db" where
  "parent_student_batches_catch env error s =
     send 500 (JObj [(''success'', JBool False),
                     (''message'', JStr (if error_message env error = []
                                         then ''Failed to fetch student batches''
                                         else error_message env error))]) s"

definition parent_student_batches :: "env \<Rightarrow> request \<Rightarrow> db \<Rightarrow> response \<times> db" where
  "parent_student_batches env req s =
     (let authHeader = headers_authorization req
      in if \<not> truthy authHeader \<or> \<not> startsWith_Bearer (opt_str authHeader)
         then send 401 (JObj [(''success'', JBool False), (''message'', JStr ''Authentication required'')]) s
         else (case jwt_verify env (bearer_segment (opt_str authHeader)) of
                 Inl error \<Rightarrow> parent_student_batches_catch env error s
               | Inr decoded \<Rightarrow>
                   (case User_findById env s (c_userId decoded) of
                      Inl error \<Rightarrow> parent_student_batches_catch env error s
                    | Inr None \<Rightarrow>
                        send 403 (JObj [(''success'', JBool False), (''message'', JStr ''Parent access required'')]) s
                    | Inr (Some parent) \<Rightarrow>
                        if u_role parent \<noteq> ''parent''
                        then send 403 (JObj [(''success'', JBool False), (''message'', JStr ''Parent access required'')]) s
                        else (let students = filter (\<lambda>u. u_parentEmail u = Some (u_email parent)) (users s)
                              in send 200 (JObj [(''success'', JBool True),
                                                 (''data'', JArr (map (\<lambda>student.
                                                     JObj [(''student'', JObj [(''id'', JStr (u_id student)),
                                                                               (''name'', JStr (u_name student)),
                                                                               (''email'', JStr (u_email student))]),
                                                           (''batches'', JArr (map (\<lambda>batch.
                                                               JObj [(''_id'', JStr (b_id batch)),
                                                                     (''name'', JStr (b_name batch)),
                                                                     (''batch_code'', JStr (b_batch_code batch)),
                                                                     (''class'', JStr (b_class batch)),
                                                                     (''teacher_id'', teacher_view s (b_teacher_id batch)),
                                                                     (''studentsCount'', JNum (length (populate_students s (b_students batch)))),
                                                                     (''announcements'', JNum (length (b_announcements batch))),
                                                                     (''createdAt'', JNum (b_createdAt batch))])
                                                             (sort_newest (filter (\<lambda>b. u_id student \<in> set (b_students b)) (batches s)))))])
                                                   students))]) s))))"

subsection \<open>GET /user/student/batches/:batchId and GET /user/parent/batches/:batchId\<close>

definition student_batch_details :: "env \<Rightarrow> request \<Rightarrow> db \<Rightarrow> response \<times> db" where
  "student_batch_details env req s =
     (let batchId = params_batchId req;
          userId = map_of (query req) ''userId'';
          authHeader = headers_authorization req;
          inner_catch = (\<lambda>tokenError.
            send 401 (JObj [(''success'', JBool False), (''message'', JStr ''Invalid or expired token''),
                            (''error'', JStr (error_message env tokenError))]) s)
      in if \<not> truthy authHeader \<or> \<not> startsWith_Bearer (opt_str authHeader)
         then send 401 (JObj [(''success'', JBool False), (''message'', JStr ''Authentication required'')]) s
         else (case jwt_verify env (bearer_segment (opt_str authHeader)) of
                 Inl tokenError \<Rightarrow> inner_catch tokenError
               | Inr decoded \<Rightarrow>
                   if c_userId decoded \<noteq> userId
                   then send 403 (JObj [(''success'', JBool False), (''message'', JStr ''User ID mismatch'')]) s
                   else (case Batch_findById env s batchId of
                           Inl tokenError \<Rightarrow> inner_catch tokenError
                         | Inr None \<Rightarrow>
                             send 404 (JObj [(''success'', JBool False), (''message'', JStr ''Batch not found'')]) s
                         | Inr (Some batch) \<Rightarrow>
                             (let students = populate_students s (b_students batch);
                                  isEnrolled = list_ex (\<lambda>student. Some (u_id student) = userId) students
                              in if \<not> isEnrolled
                                 then send 403 (JObj [(''success'', JBool False),
                                                      (''message'', JStr ''You are not enrolled in this batch'')]) s
                                 else send 200 (JObj [(''success'', JBool True),
                                                      (''batch'', JObj [(''_id'', JStr (b_id batch)),
                                                                        (''name'', JStr (b_name batch)),
                                                                        (''batch_code'', JStr (b_batch_code batch)),
                                                                        (''class'', JStr (b_class batch)),
                                                                        (''teacher'', teacher_view s (b_teacher_id batch)),
                                                                        (''studentsCount'', JNum (length students)),
                                                                        (''students'', JArr (map student_view students)),
                                                                        (''announcements'', JArr (map (announcement_json JStr) (b_announcements batch))),
                                                                        (''createdAt'', JNum (b_createdAt batch))])]) s))))"

definition parent_batch_details_catch :: "env \<Rightarrow> exn \<Rightarrow> db \<Rightarrow> response \<times> db" where
  "parent_batch_details_catch env error s =
     send 500 (JObj [(''success'', JBool False), (''message'', JStr ''Error fetching batch details''),
                     (''error'', JStr (error_message env error))]) s"

text \<open>Both users are looked up before either is examined.\<close>

definition parent_batch_details :: "env \<Rightarrow> request \<Rightarrow> db \<Rightarrow> response \<times> db" where
  "parent_batch_details env req s =
     (let batchId = params_batchId req;
          parentId = map_of (query req) ''parentId'';
          studentId = map_of (query req) ''studentId'';
          authHeader = headers_authorization req
      in if \<not> truthy authHeader \<or> \<not> startsWith_Bearer (opt_str authHeader)
         then send 401 (JObj [(''success'', JBool False), (''message'', JStr ''Authentication required'')]) s
         else (case User_findById env s parentId of
                 Inl error \<Rightarrow> parent_batch_details_catch env error s
               | Inr parent' \<Rightarrow>
                   (case User_findById env s studentId of
                      Inl error \<Rightarrow> parent_batch_details_catch env error s
                    | Inr student' \<Rightarrow>
                        (case parent' of
                           None \<Rightarrow> send 403 (JObj [(''success'', JBool False), (''message'', JStr ''Parent access required'')]) s
                         | Some parent \<Rightarrow>
                             if u_role parent \<noteq> ''parent''
                             then send 403 (JObj [(''success'', JBool False), (''message'', JStr ''Parent access required'')]) s
                             else (case student' of
                                     None \<Rightarrow> send 403 (JObj [(''success'', JBool False), (''message'', JStr ''Invalid student access'')]) s
                                   | Some student \<Rightarrow>
                                       if u_parentEmail student \<noteq> Some (u_email parent)
                                       then send 403 (JObj [(''success'', JBool False), (''message'', JStr ''Invalid student access'')]) s
                                       else (case Batch_findById env s batchId of
                                               Inl error \<Rightarrow> parent_batch_details_catch env error s
                                             | Inr None \<Rightarrow>
                                                 send 404 (JObj [(''success'', JBool False), (''message'', JStr ''Batch not found'')]) s
                                             | Inr (Some batch) \<Rightarrow>
                                                 (let students = populate_students s (b_students batch)
                                                  in if \<not> list_ex (\<lambda>x. Some (u_id x) = studentId) students
                                                     then send 403 (JObj [(''success'', JBool False),
                                                                          (''message'', JStr ''Student not enrolled in this batch'')]) s
                                                     else send 200 (JObj [(''success'', JBool True),
                                                                          (''batch'', JObj [(''_id'', JStr (b_id batch)),
                                                                                            (''name'', JStr (b_name batch)),
                                                                                            (''batch_code'', JStr (b_batch_code batch)),
                                                                                            (''class'', JStr (b_class batch)),
                                                                                            (''teacher'', teacher_view s (b_teacher_id batch)),
                                                                                            (''student'', user_document student),
                                                                                            (''studentsCount'', JNum (length students)),
                                                                                            (''announcements'', JArr (map (announcement_json JStr) (b_announcements batch))),
                                                                                            (''createdAt'', JNum (b_createdAt batch))])]) s)))))))"

section \<open>The application\<close>

datatype route =
    POST_admin_register
  | POST_admin_login
  | POST_admin_batches
  | POST_admin_batches_students
  | GET_admin_batches
  | GET_admin_batch
  | GET_admin_teachers
  | POST_admin_announcements
  | GET_admin_announcements
  | POST_user_register
  | POST_user_login
  | POST_user_login_student
  | POST_user_login_parent
  | PUT_user_profile
  | POST_user_join_batch
  | GET_user_my_batches
  | GET_user_parent_student_batches
  | GET_user_student_batch
  | GET_user_parent_batch

fun handler :: "route \<Rightarrow> env \<Rightarrow> request \<Rightarrow> db \<Rightarrow> response \<times> db" where
  "handler POST_admin_register = admin_register"
| "handler POST_admin_login = admin_login"
| "handler POST_admin_batches = create_batch"
| "handler POST_admin_batches_students = add_students"
| "handler GET_admin_batches = get_batches"
| "handler GET_admin_batch = get_batch"
| "handler GET_admin_teachers = get_teachers"
| "handler POST_admin_announcements = create_announcement"
| "handler GET_admin_announcements = get_announcements"
| "handler POST_user_register = user_register"
| "handler POST_user_login = user_login"
| "handler POST_user_login_student = login_student"
| "handler POST_user_login_parent = login_parent"
| "handler PUT_user_profile = put_profile"
| "handler POST_user_join_batch = join_batch"
| "handler GET_user_my_batches = my_batches"
| "handler GET_user_parent_student_batches = parent_student_batches"
| "handler GET_user_student_batch = student_batch_details"
| "handler GET_user_parent_batch = parent_batch_details"

text \<open>
  The application mounts \<open>express.json()\<close>, \<open>cors()\<close> and the two routers, and nothing else:
  no middleware assigns \<open>req.user\<close>, so every handler runs with it undefined.
\<close>

definition app :: "env \<Rightarrow> route \<Rightarrow> request \<Rightarrow> db \<Rightarrow> response \<times> db" where
  "app env r req s = handler r env (req\<lparr>req_user := None\<rparr>) s"

text \<open>
  The driver hands out identifiers that no stored document has; a request may create two
  documents (student and parent).
\<close>

definition fresh_ids :: "env \<Rightarrow> db \<Rightarrow> bool" where
  "fresh_ids env s =
     (new_ObjectId env 0 \<noteq> new_ObjectId env 1
      \<and> new_ObjectId env 0 \<notin> set (map u_id (users s)) \<and> new_ObjectId env 1 \<notin> set (map u_id (users s))
      \<and> new_ObjectId env 0 \<notin> set (map a_id (admins s))
      \<and> new_ObjectId env 0 \<notin> set (map b_id (batches s)))"

inductive reachable :: "db \<Rightarrow> bool" where
  start: "reachable empty_db"
| request: "reachable s \<Longrightarrow> fresh_ids env s \<Longrightarrow> reachable (snd (app env r req s))"

section \<open>Invariants of the store\<close>

text \<open>Every stored user is a student or a parent.\<close>

definition roles_ok :: "db \<Rightarrow> bool" where
  "roles_ok s = list_all (\<lambda>u. u_role u = ''student'' \<or> u_role u = ''parent'') (users s)"

text \<open>The identifier is the primary key of the User collection.\<close>

definition ids_unique :: "db \<Rightarrow> bool" where
  "ids_unique s = distinct (map u_id (users s))"

text \<open>No batch lists a student twice.\<close>

definition no_duplicate_students :: "db \<Rightarrow> bool" where
  "no_duplicate_students s = list_all (\<lambda>b. distinct (b_students b)) (batches s)"

definition store_inv :: "db \<Rightarrow> bool" where
  "store_inv s = (roles_ok s \<and> ids_unique s)"

section \<open>Example data\<close>

definition example_verify :: "string option \<Rightarrow> exn + claims" where
  "example_verify t =
     (if t = Some ''jwt::5f0000000000000000000051:student''
      then Inr \<lparr>c_adminId = None, c_userId = Some ''5f0000000000000000000051'',
                c_email = ''s@x.com'', c_role = Some ''student''\<rparr>
      else if t = Some ''jwt::5f0000000000000000000052:parent''
      then Inr \<lparr>c_adminId = None, c_userId = Some ''5f0000000000000000000052'',
                c_email = ''p@x.com'', c_role = Some ''parent''\<rparr>
      else if t = Some ''jwt:5f00000000000000000000a1::''
      then Inr \<lparr>c_adminId = Some ''5f00000000000000000000a1'', c_userId = None,
                c_email = ''a@x.com'', c_role = None\<rparr>
      else if t = Some ''expired'' then Inl TokenExpiredError
      else Inl JsonWebTokenError)"

text \<open>
  For the examples, which use ASCII strings and identifiers of 24 hexadecimal digits: the
  cast takes a string of 24 hexadecimal digits to its lower-case form and rejects any
  other string the examples use; \<open>toUpperCase\<close> as it is on ASCII strings; the names of the
  errors for their messages.
\<close>

definition hex_digit :: "char \<Rightarrow> bool" where
  "hex_digit c = (c \<in> set ''0123456789abcdefABCDEF'')"

definition hex_lower :: "char \<Rightarrow> char" where
  "hex_lower c =
     (if c = CHR ''A'' then CHR ''a'' else if c = CHR ''B'' then CHR ''b''
      else if c = CHR ''C'' then CHR ''c'' else if c = CHR ''D'' then CHR ''d''
      else if c = CHR ''E'' then CHR ''e'' else if c = CHR ''F'' then CHR ''f'' else c)"

definition example_cast :: "string \<Rightarrow> oid option" where
  "example_cast x = (if length x = 24 \<and> list_all hex_digit x then Some (map hex_lower x) else None)"

definition ascii_upper_char :: "char \<Rightarrow> char" where
  "ascii_upper_char c =
     (if 97 \<le> (of_char c :: nat) \<and> (of_char c :: nat) \<le> 122
      then char_of ((of_char c :: nat) - 32) else c)"

definition ascii_toUpperCase :: "string \<Rightarrow> string" where
  "ascii_toUpperCase x = map ascii_upper_char x"

definition example_env :: env where
  "example_env =
     \<lparr>bcrypt_hash = (\<lambda>p r. ''hash('' @ p @ '')''),
      bcrypt_compare = (\<lambda>p h. h = ''hash('' @ p @ '')''),
      jwt_sign = (\<lambda>c ttl. ''jwt:'' @ opt_str (c_adminId c) @ '':'' @ opt_str (c_userId c) @ '':'' @ opt_str (c_role c)),
      jwt_verify = example_verify,
      zod_email = login_email_pattern,
      new_ObjectId = (\<lambda>n. if n = 0 then ''5f0000000000000000000051'' else ''5f0000000000000000000052''),
      castObjectId = example_cast,
      js_toUpperCase = ascii_toUpperCase,
      error_message = exn_name,
      now = 100,
      SALT_ROUNDS = 10\<rparr>"

definition example_admin :: adminUser where
  "example_admin =
     \<lparr>a_id = ''5f00000000000000000000a1'', a_name = ''A'', a_email = ''a@x.com'',
      a_password = ''hash(secret1)'', a_role = ''admin'', a_active = True\<rparr>"

definition example_student :: user where
  "example_student =
     \<lparr>u_id = ''5f0000000000000000000051'', u_name = ''S'', u_email = ''s@x.com'',
      u_parentEmail = Some ''p@x.com'', u_password = ''hash(secret2)'', u_role = ''student''\<rparr>"

definition example_parent :: user where
  "example_parent =
     \<lparr>u_id = ''5f0000000000000000000052'', u_name = ''Parent of S'', u_email = ''p@x.com'',
      u_parentEmail = None, u_password = ''hash(secret2)'', u_role = ''parent''\<rparr>"

definition example_batch :: batch where
  "example_batch =
     \<lparr>b_id = ''5f00000000000000000000b1'', b_name = ''CS'', b_batch_code = ''CS101'', b_class = ''10'',
      b_teacher_id = ''5f00000000000000000000a1'', b_students = [''5f0000000000000000000051''],
      b_announcements = [], b_createdAt = 50\<rparr>"

definition example_empty_batch :: batch where
  "example_empty_batch =
     \<lparr>b_id = ''5f00000000000000000000b2'', b_name = ''Maths'', b_batch_code = ''MA7'', b_class = ''7'',
      b_teacher_id = ''5f00000000000000000000a1'', b_students = [],
      b_announcements = [], b_createdAt = 60\<rparr>"

definition example_db :: db where
  "example_db =
     \<lparr>admins = [example_admin], users = [example_student, example_parent],
      batches = [example_batch, example_empty_batch]\<rparr>"

definition example_req :: request where
  "example_req =
     \<lparr>headers_authorization = None, params_batchId = ''5f00000000000000000000b1'', query = [],
      body = [], body_studentIds = None, req_user = None\<rparr>"

text \<open>The store after one registration, from the empty store.\<close>

definition example_registered :: db where
  "example_registered =
     snd (app example_env POST_user_register
       (example_req\<lparr>body := [(''name'', ''S''), (''email'', ''s@x.com''),
                              (''parentEmail'', ''p@x.com''), (''password'', ''secret2'')]\<rparr>)
       empty_db)"

text \<open>
  The requests that lead from the empty store to \<open>example_db\<close>: a student registers, an
  administrator registers and creates a batch, the student joins it, the administrator
  creates a second batch.
\<close>

definition example_env_admin :: env where
  "example_env_admin =
     example_env\<lparr>new_ObjectId := (\<lambda>n. if n = 0 then ''5f00000000000000000000a1'' else ''5f00000000000000000000a2'')\<rparr>"

definition example_env_batch1 :: env where
  "example_env_batch1 =
     example_env\<lparr>new_ObjectId := (\<lambda>n. if n = 0 then ''5f00000000000000000000b1'' else ''5f00000000000000000000c1''),
                  now := 50\<rparr>"

definition example_env_batch2 :: env where
  "example_env_batch2 =
     example_env\<lparr>new_ObjectId := (\<lambda>n. if n = 0 then ''5f00000000000000000000b2'' else ''5f00000000000000000000c2''),
                  now := 60\<rparr>"

definition example_env_later :: env where
  "example_env_later =
     example_env\<lparr>new_ObjectId := (\<lambda>n. if n = 0 then ''5f00000000000000000000d1'' else ''5f00000000000000000000d2'')\<rparr>"

definition example_admin_registered :: db where
  "example_admin_registered =
     snd (app example_env_admin POST_admin_register
       (example_req\<lparr>body := [(''name'', ''A''), (''email'', ''a@x.com''), (''password'', ''secret1'')]\<rparr>)
       example_registered)"

definition example_batch_created :: db where
  "example_batch_created =
     snd (app example_env_batch1 POST_admin_batches
       (example_req\<lparr>body := [(''batch_code'', ''cs101''), (''name'', ''CS''), (''class'', ''10''),
                              (''teacher_id'', ''5f00000000000000000000a1'')]\<rparr>)
       example_admin_registered)"

definition example_joined :: db where
  "example_joined =
     snd (app example_env_later POST_user_join_batch
       (example_req\<lparr>body := [(''batch_code'', ''cs101'')],
                    headers_authorization := Some ''Bearer jwt::5f0000000000000000000051:student''\<rparr>)
       example_batch_created)"

definition example_second_batch :: db where
  "example_second_batch =
     snd (app example_env_batch2 POST_admin_batches
       (example_req\<lparr>body := [(''batch_code'', ''ma7''), (''name'', ''Maths''), (''class'', ''7''),
                              (''teacher_id'', ''5f00000000000000000000a1'')]\<rparr>)
       example_joined)"

section \<open>Basic facts\<close>

lemma snd_send [simp]: "snd (send st j s) = s"
  by (simp add: send_def)

lemma status_send [simp]: "status (fst (send st j s)) = st"
  by (simp add: send_def)

lemma payload_send [simp]: "payload (fst (send st j s)) = j"
  by (simp add: send_def)

lemmas example_defs = example_env_def example_db_def example_req_def example_admin_def
  example_student_def example_parent_def example_batch_def example_empty_batch_def example_verify_def

lemma example_cast_values [simp]:
  "example_cast ''5f0000000000000000000051'' = Some ''5f0000000000000000000051''"
  "example_cast ''5f0000000000000000000052'' = Some ''5f0000000000000000000052''"
  "example_cast ''5f00000000000000000000a1'' = Some ''5f00000000000000000000a1''"
  "example_cast ''5f00000000000000000000b1'' = Some ''5f00000000000000000000b1''"
  "example_cast ''5f00000000000000000000b2'' = Some ''5f00000000000000000000b2''"
  "example_cast ''5f00000000000000000000ff'' = Some ''5f00000000000000000000ff''"
  "example_cast ''5F0000000000000000000051'' = Some ''5f0000000000000000000051''"
  "example_cast ''abc'' = None"
  by (simp_all add: example_cast_def hex_digit_def hex_lower_def)

lemmas lookup_defs = AdminUser_findById_def User_findById_def Batch_findById_def
  AdminUser_byId_def User_byId_def Batch_byId_def Batch_findByCode_def

section \<open>PUT /user/profile\<close>

text \<open>With an authenticated user in \<open>req.user\<close> the handler updates the record.\<close>

lemma put_profile_with_user_example:
  "status (fst (put_profile example_env
       (example_req\<lparr>body := [(''name'', ''New name'')],
                    req_user := Some \<lparr>c_adminId = None, c_userId = Some ''5f0000000000000000000051'',
                                      c_email = ''s@x.com'', c_role = Some ''student''\<rparr>\<rparr>)
       example_db)) = 200
   \<and> map u_name (users (snd (put_profile example_env
       (example_req\<lparr>body := [(''name'', ''New name'')],
                    req_user := Some \<lparr>c_adminId = None, c_userId = Some ''5f0000000000000000000051'',
                                      c_email = ''s@x.com'', c_role = Some ''student''\<rparr>\<rparr>)
       example_db))) = [''New name'', ''Parent of S'']"
  by (simp add: example_defs put_profile_def profileSchema_def z_optional_def lookup_defs
      User_save_def Let_def)

text \<open>
  Claim C9. Every request to PUT /user/profile is answered with status 400 and leaves the
  store as it was. The handler reads \<open>req.user.userId\<close>; the application mounts no
  middleware that assigns \<open>req.user\<close>, so either the schema rejects the body or the read
  throws, and both reach the catch branch. The branches that look a user up, answer 404,
  401, 409, or save and answer 200, are never taken.
\<close>

theorem profile_update_always_400:
  "status (fst (app env PUT_user_profile req s)) = 400 \<and> snd (app env PUT_user_profile req s) = s"
  by (simp add: app_def put_profile_def invalid_input_catch_def split: sum.splits prod.splits)

theorem profile_update_always_400_witness:
  "status (fst (app example_env PUT_user_profile
       (example_req\<lparr>body := [(''name'', ''New name'')],
                    headers_authorization := Some ''Bearer jwt::5f0000000000000000000051:student''\<rparr>)
       example_db)) = 400
   \<and> snd (app example_env PUT_user_profile
       (example_req\<lparr>body := [(''name'', ''New name'')],
                    headers_authorization := Some ''Bearer jwt::5f0000000000000000000051:student''\<rparr>)
       example_db) = example_db"
  by (rule profile_update_always_400)

section \<open>Schema failures\<close>

text \<open>
  Claim C8. The claim says that every route answers a body with missing or malformed fields
  with status 400. POST /admin/batches does not: its catch branch answers every failure,
  the schema's included, with 500. The registration of an administrator, whose catch branch
  looks for \<open>error.errors\<close>, answers the same kind of body with 400.
\<close>

theorem create_batch_schema_failure_500:
  "status (fst (app env POST_admin_batches (req\<lparr>body := []\<rparr>) s)) = 500
   \<and> snd (app env POST_admin_batches (req\<lparr>body := []\<rparr>) s) = s
   \<and> status (fst (app env POST_admin_register (req\<lparr>body := []\<rparr>) s)) = 400"
  by (simp add: app_def create_batch_def create_batch_catch_def batchSchema_def z_min_def
      admin_register_def admin_register_catch_def admin_registerSchema_def z_email_def)

section \<open>Frame and invariant lemmas\<close>

lemma users_Batch_save [simp]: "users (Batch_save b s) = users s"
  by (simp add: Batch_save_def)

lemma batches_Batch_save [simp]:
  "batches (Batch_save b s) = map (\<lambda>x. if b_id x = b_id b then b else x) (batches s)"
  by (simp add: Batch_save_def)

lemma users_admin_register: "users (snd (admin_register env req s)) = users s"
  by (auto simp: admin_register_def admin_register_catch_def AdminUser_create_def Let_def
      split: sum.splits option.splits prod.splits if_splits)

lemma users_admin_login: "users (snd (admin_login env req s)) = users s"
  by (auto simp: admin_login_def Let_def split: sum.splits option.splits prod.splits)

lemma users_create_batch: "users (snd (create_batch env req s)) = users s"
  by (auto simp: create_batch_def create_batch_catch_def Batch_create_def Let_def
      split: sum.splits option.splits prod.splits if_splits)

lemma users_add_students: "users (snd (add_students env req s)) = users s"
  by (auto simp: add_students_def add_students_catch_def Let_def split: sum.splits option.splits)

lemma users_create_announcement: "users (snd (create_announcement env req s)) = users s"
  by (auto simp: create_announcement_def create_announcement_catch_def Let_def
      split: sum.splits option.splits)

lemma users_join_batch: "users (snd (join_batch env req s)) = users s"
  by (auto simp: join_batch_def join_batch_catch_def Let_def split: sum.splits option.splits)

lemma snd_read_only:
  "snd (get_batches env req s) = s"
  "snd (get_batch env req s) = s"
  "snd (get_teachers env req s) = s"
  "snd (get_announcements env req s) = s"
  "snd (admin_login env req s) = s"
  "snd (user_login env req s) = s"
  "snd (login_student env req s) = s"
  "snd (login_parent env req s) = s"
  "snd (my_batches env req s) = s"
  "snd (parent_student_batches env req s) = s"
  "snd (student_batch_details env req s) = s"
  "snd (parent_batch_details env req s) = s"
  by (auto simp: get_batches_def get_batch_def get_teachers_def get_announcements_def
      admin_login_def user_login_def login_student_def login_parent_def my_batches_def
      parent_student_batches_def student_batch_details_def parent_batch_details_def
      parent_student_batches_catch_def parent_batch_details_catch_def
      invalid_input_catch_def Let_def
      split: sum.splits option.splits prod.splits)




lemma roles_ok_user_register: "roles_ok s \<Longrightarrow> roles_ok (snd (user_register env req s))"
  by (auto simp: roles_ok_def user_register_def invalid_input_catch_def User_create_def Let_def
      split: sum.splits option.splits prod.splits if_splits)

lemma ids_unique_user_register:
  "ids_unique s \<Longrightarrow> fresh_ids env s \<Longrightarrow> ids_unique (snd (user_register env req s))"
  by (auto simp: ids_unique_def fresh_ids_def user_register_def invalid_input_catch_def
      User_create_def Let_def
      split: sum.splits option.splits prod.splits if_splits)

lemma batches_user_register: "batches (snd (user_register env req s)) = batches s"
  by (auto simp: user_register_def invalid_input_catch_def User_create_def Let_def
      split: sum.splits option.splits prod.splits if_splits)

lemma batches_admin_register: "batches (snd (admin_register env req s)) = batches s"
  by (auto simp: admin_register_def admin_register_catch_def AdminUser_create_def Let_def
      split: sum.splits option.splits prod.splits if_splits)

lemma find_Some_mem: "find P xs = Some x \<Longrightarrow> x \<in> set xs \<and> P x"
  by (induction xs) (auto split: if_splits)

lemma nodup_save:
  "no_duplicate_students s \<Longrightarrow> distinct (b_students b) \<Longrightarrow> no_duplicate_students (Batch_save b s)"
  by (auto simp: no_duplicate_students_def list_all_iff)

lemma nodup_find_code:
  "no_duplicate_students s \<Longrightarrow> Batch_findByCode s c = Some b \<Longrightarrow> distinct (b_students b)"
  by (auto simp: no_duplicate_students_def list_all_iff Batch_findByCode_def dest: find_Some_mem)

lemma nodup_join_batch:
  "no_duplicate_students s \<Longrightarrow> no_duplicate_students (snd (join_batch env req s))"
  by (auto simp: join_batch_def join_batch_catch_def Let_def
      intro!: nodup_save dest: nodup_find_code
      split: sum.splits option.splits)

lemma put_profile_unauthenticated:
  "snd (put_profile env (req\<lparr>req_user := None\<rparr>) s) = s"
  by (simp add: put_profile_def invalid_input_catch_def split: sum.splits prod.splits)

lemma users_only:
  "users s' = users s \<Longrightarrow> roles_ok s' = roles_ok s"
  "users s' = users s \<Longrightarrow> ids_unique s' = ids_unique s"
  by (simp_all add: roles_ok_def ids_unique_def)

lemma store_inv_step:
  assumes "store_inv s" and "fresh_ids env s"
  shows "store_inv (snd (app env r req s))"
proof (cases r)
  case POST_admin_register
  then show ?thesis
    using assms
    by (simp add: store_inv_def app_def users_only [OF users_admin_register])
next
  case POST_admin_batches
  then show ?thesis
    using assms
    by (simp add: store_inv_def app_def users_only [OF users_create_batch])
next
  case POST_admin_batches_students
  then show ?thesis
    using assms
    by (simp add: store_inv_def app_def users_only [OF users_add_students])
next
  case POST_admin_announcements
  then show ?thesis
    using assms
    by (simp add: store_inv_def app_def users_only [OF users_create_announcement])
next
  case POST_user_register
  then show ?thesis
    using assms
    by (simp add: store_inv_def app_def roles_ok_user_register ids_unique_user_register)
next
  case PUT_user_profile
  then show ?thesis
    using assms by (simp add: app_def put_profile_unauthenticated)
next
  case POST_user_join_batch
  then show ?thesis
    using assms
    by (simp add: store_inv_def app_def users_only [OF users_join_batch])
qed (use assms in \<open>simp_all add: app_def snd_read_only\<close>)

lemma fresh_ids_frame:
  "users s' = users s \<Longrightarrow> admins s' = admins s \<Longrightarrow> batches s' = batches s \<Longrightarrow> fresh_ids env s' = fresh_ids env s"
  by (simp add: fresh_ids_def)

lemma reachable_store_inv: "reachable s \<Longrightarrow> store_inv s"
proof (induction rule: reachable.induct)
  case start
  then show ?case
    by (simp add: store_inv_def roles_ok_def ids_unique_def empty_db_def)
next
  case (request s env r req)
  then show ?case
    by (simp add: store_inv_step)
qed

section \<open>GET /admin/teachers\<close>

text \<open>
  Claim C10. In every state reachable through the routes no stored user has the role
  \<open>teacher\<close>: registration writes the roles \<open>student\<close> and \<open>parent\<close> only, administrators
  go to their own collection, and no route changes a role. GET /admin/teachers, which
  queries the User collection for that role, therefore always answers with an empty list
  and the count 0.
\<close>

theorem no_teacher_is_ever_listed:
  "reachable s \<Longrightarrow>
     list_all (\<lambda>u. u_role u \<noteq> ''teacher'') (users s)
     \<and> fst (app env GET_admin_teachers req s)
       = \<lparr>status = 200, payload = JObj [(''success'', JBool True), (''teachers'', JArr []), (''count'', JNum 0)]\<rparr>"
proof -
  assume "reachable s"
  then have "roles_ok s"
    using reachable_store_inv by (simp add: store_inv_def)
  then have no: "list_all (\<lambda>u. u_role u \<noteq> ''teacher'') (users s)"
    by (auto simp: roles_ok_def list_all_iff)
  then have "filter (\<lambda>u. u_role u = ''teacher'') (users s) = []"
    by (auto simp: list_all_iff filter_empty_conv)
  then show ?thesis
    using no by (simp add: app_def get_teachers_def send_def)
qed

lemma example_registered_users:
  "map u_role (users example_registered) = [''student'', ''parent'']"
  by (simp add: example_registered_def example_defs empty_db_def app_def user_register_def
      user_registerSchema_def z_min_def z_email_def js_length_def login_email_pattern_def
      starts_with_space_def white_space_def dot_inside_def User_create_def send_def Let_def)

lemma example_registered_reachable: "reachable example_registered"
  unfolding example_registered_def
  by (rule reachable.request [OF reachable.start])
     (simp add: fresh_ids_def empty_db_def example_env_def)

theorem no_teacher_is_ever_listed_witness:
  "reachable example_registered
   \<and> map u_role (users example_registered) = [''student'', ''parent'']
   \<and> list_all (\<lambda>u. u_role u \<noteq> ''teacher'') (users example_registered)
   \<and> fst (app example_env GET_admin_teachers example_req example_registered)
     = \<lparr>status = 200, payload = JObj [(''success'', JBool True), (''teachers'', JArr []), (''count'', JNum 0)]\<rparr>"
  using no_teacher_is_ever_listed [OF example_registered_reachable, of example_env example_req]
    example_registered_reachable example_registered_users
  by simp

section \<open>The example store is reachable\<close>

lemmas schema_defs = user_registerSchema_def admin_registerSchema_def batchSchema_def loginSchema_def
  validateLogin_def z_min_def z_email_def js_length_def login_email_pattern_def
  starts_with_space_def white_space_def dot_inside_def

lemma example_registered_eq:
  "example_registered = \<lparr>admins = [], users = [example_student, example_parent], batches = []\<rparr>"
  by (simp add: example_registered_def example_defs empty_db_def app_def user_register_def
      schema_defs User_create_def send_def Let_def)

lemma example_admin_registered_eq:
  "example_admin_registered
   = \<lparr>admins = [example_admin], users = [example_student, example_parent], batches = []\<rparr>"
  by (simp add: example_admin_registered_def example_registered_eq example_env_admin_def
      example_defs app_def admin_register_def schema_defs AdminUser_create_def send_def Let_def)

lemma toUpperCase_cs101: "ascii_toUpperCase ''cs101'' = ''CS101''"
  by code_simp

lemma toUpperCase_ma7: "ascii_toUpperCase ''ma7'' = ''MA7''"
  by code_simp

lemma toUpperCase_CS101: "ascii_toUpperCase ''CS101'' = ''CS101''"
  by code_simp

lemma toUpperCase_MA7: "ascii_toUpperCase ''MA7'' = ''MA7''"
  by code_simp

lemmas example_upper = toUpperCase_cs101 toUpperCase_ma7 toUpperCase_CS101 toUpperCase_MA7

lemma example_batch_created_eq:
  "example_batch_created
   = \<lparr>admins = [example_admin], users = [example_student, example_parent],
      batches = [example_batch\<lparr>b_students := []\<rparr>]\<rparr>"
  by (simp add: example_batch_created_def example_admin_registered_eq example_env_batch1_def
      example_defs app_def create_batch_def schema_defs Batch_create_def Batch_required_def
      lookup_defs example_upper send_def Let_def)

lemma example_joined_eq:
  "example_joined
   = \<lparr>admins = [example_admin], users = [example_student, example_parent],
      batches = [example_batch]\<rparr>"
  by (simp add: example_joined_def example_batch_created_eq example_env_later_def
      example_defs app_def join_batch_def bearer_segment_def lookup_defs
      Batch_save_def example_upper send_def Let_def)

lemma example_second_batch_eq: "example_second_batch = example_db"
  by (simp add: example_second_batch_def example_joined_eq example_env_batch2_def
      example_defs app_def create_batch_def schema_defs Batch_create_def Batch_required_def
      lookup_defs example_upper send_def Let_def)

lemma example_db_reachable: "reachable example_db"
proof -
  have r1: "reachable example_registered"
    by (rule example_registered_reachable)
  have "fresh_ids example_env_admin example_registered"
    by (simp add: fresh_ids_def example_registered_eq example_env_admin_def example_defs)
  then have r2: "reachable example_admin_registered"
    unfolding example_admin_registered_def by (rule reachable.request [OF r1])
  have "fresh_ids example_env_batch1 example_admin_registered"
    by (simp add: fresh_ids_def example_admin_registered_eq example_env_batch1_def example_defs)
  then have r3: "reachable example_batch_created"
    unfolding example_batch_created_def by (rule reachable.request [OF r2])
  have "fresh_ids example_env_later example_batch_created"
    by (simp add: fresh_ids_def example_batch_created_eq example_env_later_def example_defs)
  then have r4: "reachable example_joined"
    unfolding example_joined_def by (rule reachable.request [OF r3])
  have "fresh_ids example_env_batch2 example_joined"
    by (simp add: fresh_ids_def example_joined_eq example_env_batch2_def example_defs)
  then have "reachable example_second_batch"
    unfolding example_second_batch_def by (rule reachable.request [OF r4])
  then show ?thesis
    by (simp add: example_second_batch_eq)
qed


section \<open>POST /user/join-batch\<close>

lemma request_fields [simp]:
  "headers_authorization (req\<lparr>req_user := u\<rparr>) = headers_authorization req"
  "body (req\<lparr>req_user := u\<rparr>) = body req"
  "query (req\<lparr>req_user := u\<rparr>) = query req"
  "params_batchId (req\<lparr>req_user := u\<rparr>) = params_batchId req"
  "body_studentIds (req\<lparr>req_user := u\<rparr>) = body_studentIds req"
  by simp_all

lemma find_after_replace:
  assumes "find P xs = Some b" and "P b'" and "\<And>x. P x \<Longrightarrow> k x = k b \<Longrightarrow> True"
  shows "find P (map (\<lambda>x. if k x = k b then b' else x) xs) = Some b'"
  using assms(1,2)
  by (induction xs) (auto split: if_splits)

lemma findByCode_after_save:
  "Batch_findByCode s c = Some b \<Longrightarrow> b_batch_code b' = b_batch_code b \<Longrightarrow> b_id b' = b_id b
   \<Longrightarrow> Batch_findByCode (Batch_save b' s) c = Some b'"
  using find_after_replace [of "\<lambda>x. b_batch_code x = c" "batches s" b b' b_id]
  by (auto simp: Batch_findByCode_def Batch_save_def dest: find_Some_mem)

lemma byId_after_save:
  "Batch_byId s i = Some b \<Longrightarrow> b_id b' = b_id b \<Longrightarrow> Batch_byId (Batch_save b' s) i = Some b'"
  using find_after_replace [of "\<lambda>x. b_id x = i" "batches s" b b' b_id]
  by (auto simp: Batch_byId_def Batch_save_def dest: find_Some_mem)

lemma findById_after_save:
  "Batch_findById env s i = Inr (Some b) \<Longrightarrow> b_id b' = b_id b
   \<Longrightarrow> Batch_findById env (Batch_save b' s) i = Inr (Some b')"
  by (auto simp: Batch_findById_def byId_after_save split: option.splits)

lemma User_byId_Batch_save [simp]: "User_byId (Batch_save b s) i = User_byId s i"
  by (simp add: User_byId_def Batch_save_def)

lemma AdminUser_byId_Batch_save [simp]: "AdminUser_byId (Batch_save b s) i = AdminUser_byId s i"
  by (simp add: AdminUser_byId_def Batch_save_def)

lemma User_findById_Batch_save [simp]: "User_findById env (Batch_save b s) x = User_findById env s x"
  by (simp add: User_findById_def split: option.splits)

lemma AdminUser_findById_Batch_save [simp]:
  "AdminUser_findById env (Batch_save b s) x = AdminUser_findById env s x"
  by (simp add: AdminUser_findById_def split: option.splits)

text \<open>What a successful join has established and done.\<close>

lemma join_batch_200:
  assumes "status (fst (join_batch env req s)) = 200"
  shows "\<exists>code d st b.
           map_of (body req) ''batch_code'' = Some code \<and> code \<noteq> []
           \<and> truthy (headers_authorization req)
           \<and> jwt_verify env (bearer_segment (opt_str (headers_authorization req))) = Inr d
           \<and> User_findById env s (c_userId d) = Inr (Some st) \<and> u_role st = ''student''
           \<and> Batch_findByCode s (js_toUpperCase env code) = Some b
           \<and> u_id st \<notin> set (b_students b)
           \<and> snd (join_batch env req s) = Batch_save (b\<lparr>b_students := b_students b @ [u_id st]\<rparr>) s"
  using assms
  by (cases "map_of (body req) ''batch_code''")
     (auto simp: join_batch_def join_batch_catch_def Let_def split: sum.splits option.splits if_splits)

lemma join_batch_enrolled:
  assumes "truthy (map_of (body req) ''batch_code'')" and "truthy (headers_authorization req)"
    and "jwt_verify env (bearer_segment (opt_str (headers_authorization req))) = Inr d"
    and "User_findById env s (c_userId d) = Inr (Some st)" and "u_role st = ''student''"
    and "Batch_findByCode s (js_toUpperCase env (opt_str (map_of (body req) ''batch_code''))) = Some b"
    and "u_id st \<in> set (b_students b)"
  shows "status (fst (join_batch env req s)) = 409 \<and> snd (join_batch env req s) = s"
  using assms by (simp add: join_batch_def)

lemma join_batch_missing_input:
  assumes "\<not> truthy (map_of (body req) ''batch_code'') \<or> \<not> truthy (headers_authorization req)"
  shows "status (fst (join_batch env req s)) = 400 \<and> snd (join_batch env req s) = s"
  using assms by (auto simp: join_batch_def)

lemma join_batch_not_student:
  assumes "truthy (map_of (body req) ''batch_code'')" and "truthy (headers_authorization req)"
    and "jwt_verify env (bearer_segment (opt_str (headers_authorization req))) = Inr d"
    and "User_findById env s (c_userId d) = Inr None
         \<or> (\<exists>u. User_findById env s (c_userId d) = Inr (Some u) \<and> u_role u \<noteq> ''student'')"
  shows "status (fst (join_batch env req s)) = 403 \<and> snd (join_batch env req s) = s"
  using assms by (auto simp: join_batch_def)

lemma join_batch_twice:
  assumes first: "status (fst (join_batch env req s)) = 200"
    and d: "jwt_verify env (bearer_segment (opt_str (headers_authorization req))) = Inr d"
    and code: "map_of (body req) ''batch_code'' = Some code"
    and h2: "truthy (headers_authorization req')"
    and d2: "jwt_verify env' (bearer_segment (opt_str (headers_authorization req'))) = Inr d'"
    and same: "User_findById env' s (c_userId d') = User_findById env s (c_userId d)"
    and codes: "map_of (body req') ''batch_code'' = Some code'" "code' \<noteq> []"
      "js_toUpperCase env' code' = js_toUpperCase env code"
  shows "status (fst (join_batch env' req' (snd (join_batch env req s)))) = 409
         \<and> snd (join_batch env' req' (snd (join_batch env req s))) = snd (join_batch env req s)"
proof -
  obtain st b where
      st: "User_findById env s (c_userId d) = Inr (Some st)" "u_role st = ''student''"
    and b: "Batch_findByCode s (js_toUpperCase env code) = Some b"
    and s1: "snd (join_batch env req s) = Batch_save (b\<lparr>b_students := b_students b @ [u_id st]\<rparr>) s"
    using join_batch_200 [OF first] d code by auto
  let ?b' = "b\<lparr>b_students := b_students b @ [u_id st]\<rparr>"
  have tc: "truthy (map_of (body req') ''batch_code'')"
    using codes by (cases code') simp_all
  have fb: "Batch_findByCode (Batch_save ?b' s)
      (js_toUpperCase env' (opt_str (map_of (body req') ''batch_code''))) = Some ?b'"
    using b codes by (simp add: findByCode_after_save)
  show ?thesis
    unfolding s1
    by (rule join_batch_enrolled [OF tc h2 d2 _ st(2) fb]) (simp_all add: same st)
qed


text \<open>
  Claim C5, as stated, has a caller whose token resolves to a non-student fail with
  Forbidden. The handler first requires a batch code and an Authorization header: without a
  batch code the answer is 400 and the token is never looked at, here for the token of a
  parent.
\<close>

theorem join_batch_without_code_400:
  "jwt_verify example_env (bearer_segment ''Bearer jwt::5f0000000000000000000052:parent'')
     = Inr \<lparr>c_adminId = None, c_userId = Some ''5f0000000000000000000052'',
            c_email = ''p@x.com'', c_role = Some ''parent''\<rparr>
   \<and> User_findById example_env example_db (Some ''5f0000000000000000000052'') = Inr (Some example_parent)
   \<and> u_role example_parent = ''parent''
   \<and> status (fst (app example_env POST_user_join_batch
        (example_req\<lparr>headers_authorization := Some ''Bearer jwt::5f0000000000000000000052:parent''\<rparr>)
        example_db)) = 400"
  by (simp add: example_defs bearer_segment_def lookup_defs app_def join_batch_def)


text \<open>
  Claim C5, amended. A request without a non-empty batch code or without an Authorization
  header is answered 400 and changes nothing. A caller who sends both and whose token verifies
  and resolves to a user who is no student, or to no user, fails with 403 and the store is
  unchanged. After a successful join, a second join of the same batch (the codes are equal
  after upper-casing) by the same student (any token, at any later time, that verifies and
  resolves to the same user) fails with 409 and leaves the store unchanged. A join-batch
  request introduces no duplicate: when no batch lists a student twice before the request,
  none does after it.
\<close>

theorem join_batch_checks_conflict_distinct:
  "(\<not> truthy (map_of (body req) ''batch_code'') \<or> \<not> truthy (headers_authorization req)
     \<longrightarrow> status (fst (app env POST_user_join_batch req s)) = 400
         \<and> snd (app env POST_user_join_batch req s) = s)
   \<and> (truthy (map_of (body req) ''batch_code'') \<and> truthy (headers_authorization req)
      \<and> jwt_verify env (bearer_segment (opt_str (headers_authorization req))) = Inr d
      \<and> (User_findById env s (c_userId d) = Inr None
         \<or> (\<exists>u. User_findById env s (c_userId d) = Inr (Some u) \<and> u_role u \<noteq> ''student''))
     \<longrightarrow> status (fst (app env POST_user_join_batch req s)) = 403
         \<and> snd (app env POST_user_join_batch req s) = s)
   \<and> (status (fst (app env POST_user_join_batch req s)) = 200
      \<and> jwt_verify env (bearer_segment (opt_str (headers_authorization req))) = Inr d
      \<and> map_of (body req) ''batch_code'' = Some code
      \<and> truthy (headers_authorization req')
      \<and> jwt_verify env' (bearer_segment (opt_str (headers_authorization req'))) = Inr d'
      \<and> User_findById env' s (c_userId d') = User_findById env s (c_userId d)
      \<and> map_of (body req') ''batch_code'' = Some code' \<and> code' \<noteq> []
      \<and> js_toUpperCase env' code' = js_toUpperCase env code
     \<longrightarrow> status (fst (app env' POST_user_join_batch req' (snd (app env POST_user_join_batch req s)))) = 409
         \<and> snd (app env' POST_user_join_batch req' (snd (app env POST_user_join_batch req s)))
           = snd (app env POST_user_join_batch req s))
   \<and> (list_all (\<lambda>b. distinct (b_students b)) (batches s)
     \<longrightarrow> list_all (\<lambda>b. distinct (b_students b)) (batches (snd (app env POST_user_join_batch req s))))"
proof -
  have p0: "\<not> truthy (map_of (body req) ''batch_code'') \<or> \<not> truthy (headers_authorization req)
     \<longrightarrow> status (fst (app env POST_user_join_batch req s)) = 400
         \<and> snd (app env POST_user_join_batch req s) = s"
    using join_batch_missing_input [of "req\<lparr>req_user := None\<rparr>" env s]
    by (simp add: app_def)
  have p1: "truthy (map_of (body req) ''batch_code'') \<and> truthy (headers_authorization req)
      \<and> jwt_verify env (bearer_segment (opt_str (headers_authorization req))) = Inr d
      \<and> (User_findById env s (c_userId d) = Inr None
         \<or> (\<exists>u. User_findById env s (c_userId d) = Inr (Some u) \<and> u_role u \<noteq> ''student''))
     \<longrightarrow> status (fst (app env POST_user_join_batch req s)) = 403
         \<and> snd (app env POST_user_join_batch req s) = s"
    using join_batch_not_student [of "req\<lparr>req_user := None\<rparr>" env d s]
    by (simp add: app_def)
  have p2: "status (fst (app env POST_user_join_batch req s)) = 200
      \<and> jwt_verify env (bearer_segment (opt_str (headers_authorization req))) = Inr d
      \<and> map_of (body req) ''batch_code'' = Some code
      \<and> truthy (headers_authorization req')
      \<and> jwt_verify env' (bearer_segment (opt_str (headers_authorization req'))) = Inr d'
      \<and> User_findById env' s (c_userId d') = User_findById env s (c_userId d)
      \<and> map_of (body req') ''batch_code'' = Some code' \<and> code' \<noteq> []
      \<and> js_toUpperCase env' code' = js_toUpperCase env code
     \<longrightarrow> status (fst (app env' POST_user_join_batch req' (snd (app env POST_user_join_batch req s)))) = 409
         \<and> snd (app env' POST_user_join_batch req' (snd (app env POST_user_join_batch req s)))
           = snd (app env POST_user_join_batch req s)"
    using join_batch_twice [of env "req\<lparr>req_user := None\<rparr>" s d code "req'\<lparr>req_user := None\<rparr>" env' d' code']
    by (simp add: app_def)
  have p3: "list_all (\<lambda>b. distinct (b_students b)) (batches s)
     \<longrightarrow> list_all (\<lambda>b. distinct (b_students b)) (batches (snd (app env POST_user_join_batch req s)))"
    using nodup_join_batch [of s env "req\<lparr>req_user := None\<rparr>"]
    by (simp add: app_def no_duplicate_students_def)
  show ?thesis
    using p0 p1 p2 p3 by blast
qed

theorem join_batch_checks_conflict_distinct_witness:
  "status (fst (app example_env POST_user_join_batch
       (example_req\<lparr>headers_authorization := Some ''Bearer jwt::5f0000000000000000000051:student''\<rparr>)
       example_db)) = 400
   \<and> status (fst (app example_env POST_user_join_batch
       (example_req\<lparr>body := [(''batch_code'', ''ma7'')],
                    headers_authorization := Some ''Bearer jwt::5f0000000000000000000052:parent''\<rparr>)
       example_db)) = 403
   \<and> status (fst (app example_env POST_user_join_batch
       (example_req\<lparr>body := [(''batch_code'', ''ma7'')],
                    headers_authorization := Some ''Bearer jwt::5f0000000000000000000051:student''\<rparr>)
       example_db)) = 200
   \<and> status (fst (app example_env_later POST_user_join_batch
       (example_req\<lparr>body := [(''batch_code'', ''MA7'')],
                    headers_authorization := Some ''Bearer jwt::5f0000000000000000000051:student''\<rparr>)
       (snd (app example_env POST_user_join_batch
          (example_req\<lparr>body := [(''batch_code'', ''ma7'')],
                       headers_authorization := Some ''Bearer jwt::5f0000000000000000000051:student''\<rparr>)
          example_db)))) = 409
   \<and> list_all (\<lambda>b. distinct (b_students b)) (batches example_db)
   \<and> list_all (\<lambda>b. distinct (b_students b)) (batches (snd (app example_env POST_user_join_batch
          (example_req\<lparr>body := [(''batch_code'', ''ma7'')],
                       headers_authorization := Some ''Bearer jwt::5f0000000000000000000051:student''\<rparr>)
          example_db)))"
proof -
  let ?nocode = "example_req\<lparr>headers_authorization := Some ''Bearer jwt::5f0000000000000000000051:student''\<rparr>"
  let ?parent = "example_req\<lparr>body := [(''batch_code'', ''ma7'')],
      headers_authorization := Some ''Bearer jwt::5f0000000000000000000052:parent''\<rparr>"
  let ?first = "example_req\<lparr>body := [(''batch_code'', ''ma7'')],
      headers_authorization := Some ''Bearer jwt::5f0000000000000000000051:student''\<rparr>"
  let ?again = "example_req\<lparr>body := [(''batch_code'', ''MA7'')],
      headers_authorization := Some ''Bearer jwt::5f0000000000000000000051:student''\<rparr>"
  let ?dp = "\<lparr>c_adminId = None, c_userId = Some ''5f0000000000000000000052'',
      c_email = ''p@x.com'', c_role = Some ''parent''\<rparr>"
  let ?ds = "\<lparr>c_adminId = None, c_userId = Some ''5f0000000000000000000051'',
      c_email = ''s@x.com'', c_role = Some ''student''\<rparr>"
  have ok: "status (fst (app example_env POST_user_join_batch ?first example_db)) = 200"
    by (simp add: example_defs app_def join_batch_def bearer_segment_def lookup_defs
        example_upper Let_def)
  have nd: "list_all (\<lambda>b. distinct (b_students b)) (batches example_db)"
    by (simp add: example_defs)
  have p0: "status (fst (app example_env POST_user_join_batch ?nocode example_db)) = 400"
    using join_batch_checks_conflict_distinct [where env = example_env and req = ?nocode and s = example_db]
    by (simp add: example_req_def)
  have p1: "status (fst (app example_env POST_user_join_batch ?parent example_db)) = 403"
    using join_batch_checks_conflict_distinct [where env = example_env and req = ?parent and s = example_db and d = ?dp]
    by (simp add: example_defs bearer_segment_def lookup_defs)
  have p2: "status (fst (app example_env_later POST_user_join_batch ?again
      (snd (app example_env POST_user_join_batch ?first example_db)))) = 409"
    using join_batch_checks_conflict_distinct [where env = example_env and req = ?first and s = example_db and d = ?ds
        and env' = example_env_later and req' = ?again and d' = ?ds
        and code = "''ma7''" and code' = "''MA7''"] ok
    by (simp add: example_env_later_def example_env_def example_verify_def example_req_def
        bearer_segment_def example_upper User_findById_def)
  have p3: "list_all (\<lambda>b. distinct (b_students b)) (batches (snd (app example_env POST_user_join_batch ?first example_db)))"
    using join_batch_checks_conflict_distinct [where env = example_env and req = ?first and s = example_db] nd
    by blast
  show ?thesis
    using ok nd p0 p1 p2 p3 by simp
qed

section \<open>POST /admin/batches\<close>

lemma batchSchema_Inr:
  assumes "batchSchema b = Inr (c, n, k, t)"
  shows "c \<noteq> [] \<and> n \<noteq> [] \<and> k \<noteq> [] \<and> t \<noteq> []"
  using assms
  by (auto simp: batchSchema_def z_min_def js_length_def Let_def split: option.splits if_splits)

text \<open>
  The three cases of the handler on a body that passes \<open>batchSchema\<close> and whose teacher_id
  the driver can cast, for an upper-casing that is idempotent and keeps a non-empty code
  non-empty: no such AdminUser gives 404 and nothing is persisted; an existing uppercased
  code gives 409 and nothing is persisted; otherwise exactly one batch is added, with the
  uppercased code and no students.
\<close>

lemma create_batch_cases:
  assumes valid: "batchSchema (body req) = Inr (batch_code, name, cls, teacher_id)"
    and cast: "castObjectId env teacher_id = Some k"
    and idem: "js_toUpperCase env (js_toUpperCase env batch_code) = js_toUpperCase env batch_code"
    and nonempty: "js_toUpperCase env batch_code \<noteq> []"
  shows "(AdminUser_byId s k = None
            \<longrightarrow> status (fst (app env POST_admin_batches req s)) = 404
                \<and> snd (app env POST_admin_batches req s) = s)
       \<and> (AdminUser_byId s k \<noteq> None
            \<and> Batch_findByCode s (js_toUpperCase env batch_code) \<noteq> None
            \<longrightarrow> status (fst (app env POST_admin_batches req s)) = 409
                \<and> snd (app env POST_admin_batches req s) = s)
       \<and> (AdminUser_byId s k \<noteq> None
            \<and> Batch_findByCode s (js_toUpperCase env batch_code) = None
            \<longrightarrow> status (fst (app env POST_admin_batches req s)) = 201
                \<and> snd (app env POST_admin_batches req s)
                  = s\<lparr>batches := batches s @
                        [\<lparr>b_id = new_ObjectId env 0, b_name = name,
                          b_batch_code = js_toUpperCase env batch_code, b_class = cls,
                          b_teacher_id = k, b_students = [],
                          b_announcements = [], b_createdAt = now env\<rparr>]\<rparr>)"
proof (intro conjI impI)
  assume "AdminUser_byId s k = None"
  then show "status (fst (app env POST_admin_batches req s)) = 404"
    and "snd (app env POST_admin_batches req s) = s"
    using valid cast by (simp_all add: app_def create_batch_def AdminUser_findById_def)
next
  assume "AdminUser_byId s k \<noteq> None
            \<and> Batch_findByCode s (js_toUpperCase env batch_code) \<noteq> None"
  then show "status (fst (app env POST_admin_batches req s)) = 409"
    and "snd (app env POST_admin_batches req s) = s"
    using valid cast by (auto simp: app_def create_batch_def AdminUser_findById_def)
next
  assume a: "AdminUser_byId s k \<noteq> None
            \<and> Batch_findByCode s (js_toUpperCase env batch_code) = None"
  then obtain admin where admin: "AdminUser_byId s k = Some admin"
    by auto
  then have id: "a_id admin = k"
    by (auto simp: AdminUser_byId_def dest: find_Some_mem)
  let ?b = "\<lparr>b_id = new_ObjectId env 0, b_name = name,
              b_batch_code = js_toUpperCase env batch_code, b_class = cls,
              b_teacher_id = k, b_students = [],
              b_announcements = [], b_createdAt = now env\<rparr>"
  have created: "Batch_create env ?b s = Inr (s\<lparr>batches := batches s @ [?b]\<rparr>)"
    using a batchSchema_Inr [OF valid] idem nonempty
    by (simp add: Batch_create_def Batch_required_def)
  show "status (fst (app env POST_admin_batches req s)) = 201"
    using valid cast a admin id created
    by (simp add: app_def create_batch_def AdminUser_findById_def Let_def)
  show "snd (app env POST_admin_batches req s) = s\<lparr>batches := batches s @ [?b]\<rparr>"
    using valid cast a admin id created
    by (simp add: app_def create_batch_def AdminUser_findById_def Let_def)
qed

text \<open>The example of the spec: \<open>cs101\<close> is stored as \<open>CS101\<close>, with no students.\<close>

lemma create_batch_cs101:
  "status (fst (app example_env_batch1 POST_admin_batches
       (example_req\<lparr>body := [(''batch_code'', ''cs101''), (''name'', ''CS''), (''class'', ''10''),
                              (''teacher_id'', ''5f00000000000000000000a1'')]\<rparr>) example_admin_registered)) = 201
   \<and> map b_batch_code (batches (snd (app example_env_batch1 POST_admin_batches
       (example_req\<lparr>body := [(''batch_code'', ''cs101''), (''name'', ''CS''), (''class'', ''10''),
                              (''teacher_id'', ''5f00000000000000000000a1'')]\<rparr>) example_admin_registered)))
     = [''CS101'']
   \<and> map b_students (batches (snd (app example_env_batch1 POST_admin_batches
       (example_req\<lparr>body := [(''batch_code'', ''cs101''), (''name'', ''CS''), (''class'', ''10''),
                              (''teacher_id'', ''5f00000000000000000000a1'')]\<rparr>) example_admin_registered)))
     = [[]]"
  by (simp add: example_admin_registered_eq example_env_batch1_def
      example_defs app_def create_batch_def schema_defs Batch_create_def Batch_required_def
      lookup_defs example_upper send_def Let_def)

text \<open>
  Claim C6 has every validated request whose teacher_id resolves to no AdminUser fail with
  NotFound. The body below passes \<open>batchSchema\<close> (every field is a non-empty string) and its
  teacher_id, \<open>abc\<close>, is the identifier of no AdminUser: the driver cannot cast it, the lookup
  throws, and the catch branch answers 500. Nothing is persisted.
\<close>

theorem create_batch_malformed_teacher_500:
  "batchSchema [(''batch_code'', ''cs101''), (''name'', ''CS''), (''class'', ''10''), (''teacher_id'', ''abc'')]
     = Inr (''cs101'', ''CS'', ''10'', ''abc'')
   \<and> find (\<lambda>a. a_id a = ''abc'') (admins example_db) = None
   \<and> AdminUser_findById example_env example_db (Some ''abc'') = Inl CastError
   \<and> status (fst (app example_env POST_admin_batches
       (example_req\<lparr>body := [(''batch_code'', ''cs101''), (''name'', ''CS''), (''class'', ''10''),
                              (''teacher_id'', ''abc'')]\<rparr>) example_db)) = 500
   \<and> snd (app example_env POST_admin_batches
       (example_req\<lparr>body := [(''batch_code'', ''cs101''), (''name'', ''CS''), (''class'', ''10''),
                              (''teacher_id'', ''abc'')]\<rparr>) example_db) = example_db"
  by (simp add: batchSchema_def z_min_def js_length_def app_def create_batch_def create_batch_catch_def
      AdminUser_findById_def send_def example_env_def example_req_def example_db_def example_admin_def)

section \<open>POST /admin/batches/:batchId/students\<close>







text \<open>
  Two slips of the handler on identifiers that are not in the printed form. An identifier
  that the driver cannot cast makes the query throw, and the answer is 500. An enrolled
  student's identifier in upper case resolves, is not found by \<open>includes\<close> (which compares
  the string with the printed form), and is pushed a second time.
\<close>

lemma add_students_malformed_id_500:
  "status (fst (app example_env POST_admin_batches_students
       (example_req\<lparr>params_batchId := ''5f00000000000000000000b2'',
                    body_studentIds := Some [''abc'']\<rparr>) example_db)) = 500
   \<and> snd (app example_env POST_admin_batches_students
       (example_req\<lparr>params_batchId := ''5f00000000000000000000b2'',
                    body_studentIds := Some [''abc'']\<rparr>) example_db) = example_db"
  by (simp add: app_def add_students_def add_students_catch_def cast_all_def lookup_defs
      example_defs send_def)

lemma add_students_upper_case_again:
  "map b_students (batches example_db) = [[''5f0000000000000000000051''], []]
   \<and> status (fst (app example_env POST_admin_batches_students
       (example_req\<lparr>params_batchId := ''5f00000000000000000000b1'',
                    body_studentIds := Some [''5F0000000000000000000051'']\<rparr>) example_db)) = 200
   \<and> map b_students (batches (snd (app example_env POST_admin_batches_students
       (example_req\<lparr>params_batchId := ''5f00000000000000000000b1'',
                    body_studentIds := Some [''5F0000000000000000000051'']\<rparr>) example_db)))
     = [[''5f0000000000000000000051'', ''5f0000000000000000000051''], []]"
  by (simp add: app_def add_students_def cast_all_def lookup_defs Batch_save_def
      List.map_filter_simps example_defs send_def Let_def)






section \<open>POST /admin/batches/:batchId/announcements\<close>

lemma startsWith_Bearer_truthy: "startsWith_Bearer h \<Longrightarrow> truthy (Some h)"
  by (auto simp: startsWith_Bearer_def)

lemma env_jwt_verify_update:
  "now (env\<lparr>jwt_verify := v\<rparr>) = now env"
  "castObjectId (env\<lparr>jwt_verify := v\<rparr>) = castObjectId env"
  "error_message (env\<lparr>jwt_verify := v\<rparr>) = error_message env"
  by simp_all

lemma lookups_jwt_verify_update:
  "AdminUser_findById (env\<lparr>jwt_verify := v\<rparr>) = AdminUser_findById env"
  "User_findById (env\<lparr>jwt_verify := v\<rparr>) = User_findById env"
  "Batch_findById (env\<lparr>jwt_verify := v\<rparr>) = Batch_findById env"
  unfolding fun_eq_iff AdminUser_findById_def User_findById_def Batch_findById_def
    env_jwt_verify_update
  by (rule allI refl)+

lemma create_announcement_catch_jwt_verify_update:
  "create_announcement_catch (env\<lparr>jwt_verify := v\<rparr>) = create_announcement_catch env"
  unfolding fun_eq_iff create_announcement_catch_def env_jwt_verify_update
  by (rule allI refl)+

lemma create_announcement_ignores_verify:
  "create_announcement (env\<lparr>jwt_verify := v\<rparr>) req s = create_announcement env req s"
  unfolding create_announcement_def env_jwt_verify_update lookups_jwt_verify_update
    create_announcement_catch_jwt_verify_update
  by (rule refl)

lemma AdminUser_findById_found:
  assumes "AdminUser_findById env s (Some raw) = Inr (Some a)"
  shows "castObjectId env raw = Some (a_id a)"
  using assms
  by (auto simp: AdminUser_findById_def AdminUser_byId_def split: option.splits dest: find_Some_mem)


text \<open>
  Claim C1. The handler takes the segment after \<open>Bearer\<close> as an administrator's
  identifier. When it resolves to an existing AdminUser, the batch exists and prints that
  segment as its teacher_id, and the body carries a non-empty title and a non-empty
  content, the answer is 201 and the only change of the store is the announcement inserted
  at the front of the batch's announcements. No token is verified: replacing the
  verification function by any other leaves the route's result the same, so the request
  succeeds also when the segment is no valid signed token.
\<close>

theorem announcement_accepts_raw_admin_id:
  assumes hdr: "headers_authorization req = Some h" "startsWith_Bearer h" "bearer_segment h = Some tid"
    and admin: "AdminUser_findById env s (Some tid) = Inr (Some teacher)"
    and batch: "Batch_findById env s (params_batchId req) = Inr (Some b)" "b_teacher_id b = tid"
    and title: "map_of (body req) ''title'' = Some title" "title \<noteq> []"
    and content: "map_of (body req) ''content'' = Some content" "content \<noteq> []"
  shows "status (fst (app env POST_admin_announcements req s)) = 201
       \<and> snd (app env POST_admin_announcements req s)
         = Batch_save (b\<lparr>b_announcements :=
              \<lparr>an_title = title, an_content = content, an_teacher_id = a_id teacher,
                an_createdAt = now env\<rparr>
              # b_announcements b\<rparr>) s
       \<and> Batch_findById env (snd (app env POST_admin_announcements req s)) (params_batchId req)
         = Inr (Some (b\<lparr>b_announcements :=
              \<lparr>an_title = title, an_content = content, an_teacher_id = a_id teacher,
                an_createdAt = now env\<rparr>
              # b_announcements b\<rparr>))
       \<and> app (env\<lparr>jwt_verify := v\<rparr>) POST_admin_announcements req s
         = app env POST_admin_announcements req s"
proof -
  let ?a = "\<lparr>an_title = title, an_content = content, an_teacher_id = a_id teacher,
      an_createdAt = now env\<rparr>"
  let ?b' = "b\<lparr>b_announcements := ?a # b_announcements b\<rparr>"
  have na: "new_announcement (Some title) (Some content) (a_id teacher) (now env) = Inr ?a"
    using title content by (simp add: new_announcement_def)
  have c: "castObjectId env tid = Some (a_id teacher)"
    using admin by (rule AdminUser_findById_found)
  have fb: "Batch_findById env (Batch_save ?b' s) (params_batchId req) = Inr (Some ?b')"
    using batch by (simp add: findById_after_save)
  have t: "truthy (Some h)"
    using hdr(2) by (rule startsWith_Bearer_truthy)
  have run: "create_announcement env (req\<lparr>req_user := None\<rparr>) s
      = send 201 (JObj [(''success'', JBool True),
                        (''message'', JStr ''Announcement created successfully''),
                        (''announcement'', announcement_json (teacher_view (Batch_save ?b' s)) ?a)])
          (Batch_save ?b' s)"
    using hdr admin batch title content na fb t c
    by (simp add: create_announcement_def Let_def)
  show ?thesis
    using run fb by (simp add: app_def create_announcement_ignores_verify)
qed

theorem announcement_accepts_raw_admin_id_witness:
  "jwt_verify example_env (Some ''5f00000000000000000000a1'') = Inl JsonWebTokenError
   \<and> status (fst (app example_env POST_admin_announcements
        (example_req\<lparr>headers_authorization := Some ''Bearer 5f00000000000000000000a1'',
                     body := [(''title'', ''Exam''), (''content'', ''Exam on Monday'')]\<rparr>) example_db)) = 201
   \<and> map b_announcements (batches (snd (app example_env POST_admin_announcements
        (example_req\<lparr>headers_authorization := Some ''Bearer 5f00000000000000000000a1'',
                     body := [(''title'', ''Exam''), (''content'', ''Exam on Monday'')]\<rparr>) example_db)))
     = [[\<lparr>an_title = ''Exam'', an_content = ''Exam on Monday'',
          an_teacher_id = ''5f00000000000000000000a1'', an_createdAt = 100\<rparr>], []]"
proof -
  let ?req = "example_req\<lparr>headers_authorization := Some ''Bearer 5f00000000000000000000a1'',
      body := [(''title'', ''Exam''), (''content'', ''Exam on Monday'')]\<rparr>"
  have h: "headers_authorization ?req = Some ''Bearer 5f00000000000000000000a1''"
    "startsWith_Bearer ''Bearer 5f00000000000000000000a1''"
    "bearer_segment ''Bearer 5f00000000000000000000a1'' = Some ''5f00000000000000000000a1''"
    by (simp_all add: example_req_def startsWith_Bearer_def bearer_segment_def)
  have a: "AdminUser_findById example_env example_db (Some ''5f00000000000000000000a1'') = Inr (Some example_admin)"
    by (simp add: lookup_defs example_defs)
  have b: "Batch_findById example_env example_db (params_batchId ?req) = Inr (Some example_batch)"
    "b_teacher_id example_batch = ''5f00000000000000000000a1''"
    by (simp_all add: lookup_defs example_defs)
  have t: "map_of (body ?req) ''title'' = Some ''Exam''" "''Exam'' \<noteq> []"
    "map_of (body ?req) ''content'' = Some ''Exam on Monday''" "''Exam on Monday'' \<noteq> []"
    by (simp_all add: example_req_def)
  have v: "jwt_verify example_env (Some ''5f00000000000000000000a1'') = Inl JsonWebTokenError"
    by (simp add: example_defs)
  show ?thesis
    using announcement_accepts_raw_admin_id [OF h a b t] v
    by (simp add: example_defs Batch_save_def)
qed

section \<open>The batch views of routes/user\<close>

lemma parent_batch_details_catch_jwt_verify_update:
  "parent_batch_details_catch (env\<lparr>jwt_verify := v\<rparr>) = parent_batch_details_catch env"
  unfolding fun_eq_iff parent_batch_details_catch_def env_jwt_verify_update
  by (rule allI refl)+

lemma parent_batch_details_ignores_verify:
  "parent_batch_details (env\<lparr>jwt_verify := v\<rparr>) req s = parent_batch_details env req s"
  unfolding parent_batch_details_def lookups_jwt_verify_update
    parent_batch_details_catch_jwt_verify_update
  by (rule refl)

lemma my_batches_ignores_token:
  "my_batches (env\<lparr>jwt_verify := v\<rparr>) (req\<lparr>headers_authorization := h\<rparr>) s = my_batches env req s"
proof -
  have q: "query (req\<lparr>headers_authorization := h\<rparr>) = query req"
    by simp
  show ?thesis
    unfolding my_batches_def env_jwt_verify_update q by (rule refl)
qed

lemma student_batch_details_checks:
  assumes "status (fst (student_batch_details env req s)) = 200"
  shows "\<exists>decoded. jwt_verify env (bearer_segment (opt_str (headers_authorization req))) = Inr decoded
           \<and> c_userId decoded = map_of (query req) ''userId''"
  using assms
  by (auto simp: student_batch_details_def Let_def split: sum.splits option.splits if_splits)

lemma parent_student_batches_checks:
  assumes "status (fst (parent_student_batches env req s)) = 200"
  shows "\<exists>decoded parent. jwt_verify env (bearer_segment (opt_str (headers_authorization req))) = Inr decoded
           \<and> User_findById env s (c_userId decoded) = Inr (Some parent) \<and> u_role parent = ''parent''"
  using assms
  by (auto simp: parent_student_batches_def parent_student_batches_catch_def Let_def
      split: sum.splits option.splits if_splits)

text \<open>
  Claim C3. The claim says that the four batch views of routes/user require a valid bearer
  token and check the identifiers of the query against it. Two of them do
  (\<open>student_batch_details_checks\<close>, \<open>parent_student_batches_checks\<close>); the other two do not.
  GET /user/parent/batches/:batchId asks for a header that starts with \<open>Bearer\<close> and never
  verifies the token: with a token that the verification rejects, the identifiers of a
  parent and of their enrolled child in the query are answered with the batch. GET
  /user/my-batches reads no header at all and answers any student_id. GET
  /user/parent/student-batches verifies, but answers a rejected token with 500.
\<close>

theorem batch_views_without_verified_token:
  "jwt_verify example_env (bearer_segment ''Bearer garbage'') = Inl JsonWebTokenError
   \<and> status (fst (app example_env GET_user_parent_batch
        (example_req\<lparr>headers_authorization := Some ''Bearer garbage'',
                     query := [(''parentId'', ''5f0000000000000000000052''),
                               (''studentId'', ''5f0000000000000000000051'')]\<rparr>) example_db)) = 200
   \<and> status (fst (app example_env GET_user_my_batches
        (example_req\<lparr>headers_authorization := None,
                     query := [(''student_id'', ''5f0000000000000000000051'')]\<rparr>) example_db)) = 200
   \<and> status (fst (app example_env GET_user_parent_student_batches
        (example_req\<lparr>headers_authorization := Some ''Bearer garbage''\<rparr>) example_db)) = 500"
  by (simp add: example_defs app_def parent_batch_details_def my_batches_def
      parent_student_batches_def parent_student_batches_catch_def startsWith_Bearer_def
      bearer_segment_def lookup_defs populate_students_def List.map_filter_def Let_def)

section \<open>The four logins\<close>

lemma field_JObj [simp]: "field (JObj kvs) k = map_of kvs k"
  by (simp add: field_def)










section \<open>POST /user/register\<close>











end
